theory Spec2Isabelle
  imports Main "HOL-Library.Word"
begin

section \<open>The reverse page-table walker of mm/page_vma_mapped.c\<close>

text \<open>
  The walker \<open>page_vma_mapped_walk\<close> looks for the page-table entries that map one page
  inside one virtual memory area. It is resumable: the cursor \<open>struct page_vma_mapped_walk\<close>
  is kept by the caller between calls. The C function is written with \<open>goto\<close>; the model
  keeps its labels and runs the control-flow graph block by block.
\<close>

subsection \<open>Data\<close>

type_synonym addr = "64 word"
type_synonym pfn_t = "64 word"

text \<open>
  A pointer to a page-table entry is an index into the entries of its level
  (\<open>p + 1\<close> is the C \<open>p++\<close>); \<open>NULL\<close> is \<open>None\<close>. A spinlock is named by a number.
\<close>

type_synonym ptr = nat
type_synonym lock = nat

text \<open>
  Modelled from the spec: the flag constants are declared in \<open>linux/rmap.h\<close>, outside
  this file. The spec calls \<open>flags\<close> a fixed bitset with the members \<open>Sync\<close> and
  \<open>MigrationAware\<close>; \<open>pvmw->flags & PVMW_X\<close> is membership.
\<close>

datatype pvmw_flag = PVMW_SYNC | PVMW_MIGRATION

text \<open>
  Modelled from the spec: \<open>struct page\<close> and its predicates are declared in
  \<open>linux/mm.h\<close> and \<open>linux/page-flags.h\<close>, outside this file. The spec lists the
  queries \<open>physicalFrameNumber\<close>, \<open>isCompound\<close>, \<open>isHugetlbBacked\<close> and
  \<open>frameCount\<close>; the walker also asks \<open>PageTransHuge\<close> and
  \<open>compound_order\<close>. Each is a field, none is derived from another. The \<open>int\<close> that
  \<open>hpage_nr_pages\<close> returns is held as the \<open>unsigned long\<close> it is converted to wherever
  the walker uses it. Two \<open>struct page\<close> pointers are equal when their frame numbers
  are.
\<close>

record struct_page =
  page_to_pfn :: pfn_t
  PageTransCompound :: bool
  PageHuge :: bool
  PageTransHuge :: bool
  compound_order :: nat
  hpage_nr_pages :: "64 word"

record vm_area_struct =
  vm_start :: addr
  vm_end :: addr

text \<open>
  Modelled from the spec: the swap-entry codec decodes an entry to a frame number and
  classifies it as migration placeholder, device-private placeholder or other.
\<close>

datatype swp_entry_t = Migration pfn_t | DevicePrivate pfn_t | OtherSwap

fun is_migration_entry :: "swp_entry_t \<Rightarrow> bool" where
  "is_migration_entry (Migration f) = True"
| "is_migration_entry e = False"

fun is_device_private_entry :: "swp_entry_t \<Rightarrow> bool" where
  "is_device_private_entry (DevicePrivate f) = True"
| "is_device_private_entry e = False"

fun migration_entry_to_pfn :: "swp_entry_t \<Rightarrow> pfn_t" where
  "migration_entry_to_pfn (Migration f) = f"
| "migration_entry_to_pfn (DevicePrivate f) = f"
| "migration_entry_to_pfn OtherSwap = 0"

fun device_private_entry_to_pfn :: "swp_entry_t \<Rightarrow> pfn_t" where
  "device_private_entry_to_pfn (DevicePrivate f) = f"
| "device_private_entry_to_pfn (Migration f) = f"
| "device_private_entry_to_pfn OtherSwap = 0"

text \<open>
  Modelled from the spec: the entry types and their predicates come from the
  architecture headers. An entry of each level is absent, a present mapping, a pointer to
  the next table, or (below level 3) a swap-style entry. An absent entry is all zeroes,
  so its frame number is 0; the walker asks for the frame of a swap-style directory entry
  nowhere.
\<close>

datatype pte_t = PTE_none | PTE_present pfn_t | PTE_swap swp_entry_t

datatype pmd_t = PMD_none | PMD_trans_huge pfn_t | PMD_table pfn_t | PMD_swap swp_entry_t

datatype pud_t = PUD_none | PUD_trans_huge pfn_t | PUD_table pfn_t

fun pte_none :: "pte_t \<Rightarrow> bool" where
  "pte_none PTE_none = True"
| "pte_none v = False"

fun pte_present :: "pte_t \<Rightarrow> bool" where
  "pte_present (PTE_present f) = True"
| "pte_present v = False"

definition is_swap_pte :: "pte_t \<Rightarrow> bool" where
  "is_swap_pte v = (\<not> pte_none v \<and> \<not> pte_present v)"

fun pte_pfn :: "pte_t \<Rightarrow> pfn_t" where
  "pte_pfn (PTE_present f) = f"
| "pte_pfn v = 0"

fun pte_to_swp_entry :: "pte_t \<Rightarrow> swp_entry_t" where
  "pte_to_swp_entry (PTE_swap e) = e"
| "pte_to_swp_entry v = OtherSwap"

fun pmd_none :: "pmd_t \<Rightarrow> bool" where
  "pmd_none PMD_none = True"
| "pmd_none v = False"

fun pmd_trans_huge :: "pmd_t \<Rightarrow> bool" where
  "pmd_trans_huge (PMD_trans_huge f) = True"
| "pmd_trans_huge v = False"

fun pmd_present :: "pmd_t \<Rightarrow> bool" where
  "pmd_present (PMD_trans_huge f) = True"
| "pmd_present (PMD_table f) = True"
| "pmd_present v = False"

fun pmd_pfn :: "pmd_t \<Rightarrow> pfn_t" where
  "pmd_pfn (PMD_trans_huge f) = f"
| "pmd_pfn (PMD_table f) = f"
| "pmd_pfn v = 0"

fun pmd_to_swp_entry :: "pmd_t \<Rightarrow> swp_entry_t" where
  "pmd_to_swp_entry (PMD_swap e) = e"
| "pmd_to_swp_entry v = OtherSwap"

fun pud_trans_huge :: "pud_t \<Rightarrow> bool" where
  "pud_trans_huge (PUD_trans_huge f) = True"
| "pud_trans_huge v = False"

fun pud_present :: "pud_t \<Rightarrow> bool" where
  "pud_present PUD_none = False"
| "pud_present v = True"

text \<open>\<open>pud_page\<close> gives a \<open>struct page\<close> pointer, named here by its frame number.\<close>

fun pud_page :: "pud_t \<Rightarrow> pfn_t" where
  "pud_page (PUD_trans_huge f) = f"
| "pud_page (PUD_table f) = f"
| "pud_page PUD_none = 0"

text \<open>
  The address space \<open>pvmw->vma->vm_mm\<close> with the architecture constants. The table
  accessors, the lock accessors, the size macros and \<open>__vma_address\<close> (here
  \<open>vma_address\<close>) are defined in other headers, so each is a parameter. A size of 0
  is no size: \<open>address % PUD_SIZE\<close> is then undefined in C. Other threads may change
  the tables while the walker runs: an entry is read through \<open>pud_entry\<close>, \<open>pmd_entry\<close> and \<open>pte_entry\<close>, whose first argument
  says whether the walker holds its lock at the read. What is seen before the lock is
  taken and what is seen under it may differ (a huge entry split in between); a
  sequential run has both equal.
\<close>

record mm_struct =
  PAGE_SIZE :: addr
  PMD_SIZE :: addr
  PUD_SIZE :: addr
  HPAGE_PMD_SIZE :: addr
  HPAGE_PUD_ORDER :: nat
  thp_migration_supported :: bool
  vma_address :: "struct_page \<Rightarrow> vm_area_struct \<Rightarrow> addr"
  pgd_offset :: "addr \<Rightarrow> ptr"
  pgd_present :: "ptr \<Rightarrow> bool"
  p4d_offset :: "ptr \<Rightarrow> addr \<Rightarrow> ptr"
  p4d_present :: "ptr \<Rightarrow> bool"
  pud_offset :: "ptr \<Rightarrow> addr \<Rightarrow> ptr"
  pud_entry :: "bool \<Rightarrow> ptr \<Rightarrow> pud_t"
  pmd_offset :: "ptr \<Rightarrow> addr \<Rightarrow> ptr"
  pmd_entry :: "bool \<Rightarrow> ptr \<Rightarrow> pmd_t"
  pte_offset_map :: "ptr \<Rightarrow> addr \<Rightarrow> ptr"
  pte_entry :: "bool \<Rightarrow> ptr \<Rightarrow> pte_t"
  huge_pte_offset :: "addr \<Rightarrow> addr \<Rightarrow> ptr option"
  pud_lockptr :: "ptr \<Rightarrow> lock"
  pmd_lockptr :: "ptr \<Rightarrow> lock"
  pte_lockptr :: "ptr \<Rightarrow> lock"
  huge_pte_lockptr :: "ptr \<Rightarrow> lock"

text \<open>
  The cursor. The fields down to \<open>ptl\<close> are those of \<open>struct page_vma_mapped_walk\<close>.
  The last two are not fields of the struct: \<open>held\<close> lists the spinlocks this walker has
  taken and not released (the effect of \<open>spin_lock\<close> and \<open>spin_unlock\<close>), \<open>pte_mapped\<close>
  tells whether a leaf table is mapped by \<open>pte_offset_map\<close> and not yet unmapped by
  \<open>pte_unmap\<close>; unmapping once more changes nothing in the model. \<open>spin_lock\<close> always
  gets its lock: another holder releases it in the end.
\<close>

record pvmw =
  page :: struct_page
  vma :: vm_area_struct
  address :: addr
  flags :: "pvmw_flag set"
  pud :: "ptr option"
  pmd :: "ptr option"
  pte :: "ptr option"
  ptl :: "lock option"
  held :: "lock list"
  pte_mapped :: bool

text \<open>
  A call returns a value, or dereferences a \<open>NULL\<close> handle (\<open>Crashed\<close>), or has not
  returned when the fuel of the model is used up.
\<close>

datatype 'a outcome = Returns 'a | Crashed | OutOfFuel

subsection \<open>Primitives\<close>

definition spin_lock :: "lock \<Rightarrow> pvmw \<Rightarrow> pvmw" where
  "spin_lock l s = s\<lparr>held := l # held s\<rparr>"

definition spin_unlock :: "lock \<Rightarrow> pvmw \<Rightarrow> pvmw" where
  "spin_unlock l s = s\<lparr>held := remove1 l (held s)\<rparr>"

definition pte_unmap :: "pvmw \<Rightarrow> pvmw" where
  "pte_unmap s = s\<lparr>pte_mapped := False\<rparr>"

text \<open>\<open>pvmw->ptl = pud_lock(mm, pvmw->pud)\<close>: take the lock, keep its pointer.\<close>

definition pud_lock :: "mm_struct \<Rightarrow> ptr \<Rightarrow> pvmw \<Rightarrow> pvmw" where
  "pud_lock mm p s = (spin_lock (pud_lockptr mm p) s)\<lparr>ptl := Some (pud_lockptr mm p)\<rparr>"

definition pmd_lock :: "mm_struct \<Rightarrow> ptr \<Rightarrow> pvmw \<Rightarrow> pvmw" where
  "pmd_lock mm p s = (spin_lock (pmd_lockptr mm p) s)\<lparr>ptl := Some (pmd_lockptr mm p)\<rparr>"

text \<open>
  Modelled from the spec: \<open>page_size\<close> is the allocation size of the page,
  \<open>PAGE_SIZE << compound_order(page)\<close>.
\<close>

definition page_size :: "mm_struct \<Rightarrow> struct_page \<Rightarrow> addr" where
  "page_size mm pg = push_bit (compound_order pg) (PAGE_SIZE mm)"

text \<open>
  Modelled from the spec: a huge-page migration placeholder is recognised only when the
  platform supports such placeholders.
\<close>

definition is_pmd_migration_entry :: "mm_struct \<Rightarrow> pmd_t \<Rightarrow> bool" where
  "is_pmd_migration_entry mm v =
     (thp_migration_supported mm \<and> \<not> pmd_present v \<and> is_migration_entry (pmd_to_swp_entry v))"

text \<open>
  Modelled from the spec: \<open>page_vma_mapped_walk_done\<close> is the explicit early-stop
  cleanup, defined in \<open>linux/rmap.h\<close>, outside this file. It releases the
  leaf handle if one is set and the lock if one is recorded, and is safe when neither is.
\<close>

definition page_vma_mapped_walk_done :: "pvmw \<Rightarrow> pvmw" where
  "page_vma_mapped_walk_done s =
     (let s1 = (if pte s \<noteq> None then pte_unmap s else s)
      in case ptl s1 of None \<Rightarrow> s1 | Some l \<Rightarrow> spin_unlock l s1)"

text \<open>\<open>not_found\<close> cleans up; its caller returns \<open>false\<close> with the state it yields.\<close>

definition not_found :: "pvmw \<Rightarrow> pvmw" where
  "not_found s = page_vma_mapped_walk_done s"

text \<open>
  \<open>spin_unlock(pvmw->ptl); pvmw->ptl = NULL;\<close> for a lock pointer known to be set;
  \<open>None\<close> when it is \<open>NULL\<close>.
\<close>

definition unlock_ptl :: "pvmw \<Rightarrow> pvmw option" where
  "unlock_ptl s = (case ptl s of None \<Rightarrow> None | Some l \<Rightarrow> Some ((spin_unlock l s)\<lparr>ptl := None\<rparr>))"

text \<open>\<open>if (pvmw->ptl) { spin_unlock(pvmw->ptl); pvmw->ptl = NULL; }\<close>\<close>

definition unlock_ptl_if_set :: "pvmw \<Rightarrow> pvmw" where
  "unlock_ptl_if_set s = (case ptl s of None \<Rightarrow> s | Some l \<Rightarrow> (spin_unlock l s)\<lparr>ptl := None\<rparr>)"

subsection \<open>The helper functions of the file\<close>

definition map_pte :: "mm_struct \<Rightarrow> pvmw \<Rightarrow> (bool \<times> pvmw) option" where
  "map_pte mm s =
     (case pmd s of
        None \<Rightarrow> None
      | Some pm \<Rightarrow>
          let p = pte_offset_map mm pm (address s);
              s1 = s\<lparr>pte := Some p, pte_mapped := True\<rparr>;
              v = pte_entry mm (ptl s1 \<noteq> None) p
          in if PVMW_SYNC \<notin> flags s1 \<and>
                (if PVMW_MIGRATION \<in> flags s1 then \<not> is_swap_pte v
                 else if is_swap_pte v then \<not> is_device_private_entry (pte_to_swp_entry v)
                 else \<not> pte_present v)
             then Some (False, s1)
             else Some (True, spin_lock (pte_lockptr mm pm) (s1\<lparr>ptl := Some (pte_lockptr mm pm)\<rparr>)))"

definition map_pmd :: "mm_struct \<Rightarrow> pvmw \<Rightarrow> (bool \<times> pvmw) option" where
  "map_pmd mm s =
     (case pud s of
        None \<Rightarrow> None
      | Some pu \<Rightarrow>
          let p = pmd_offset mm pu (address s);
              s1 = s\<lparr>pmd := Some p\<rparr>;
              pmde = pmd_entry mm (ptl s1 \<noteq> None) p
          in if pmd_trans_huge pmde \<or> is_pmd_migration_entry mm pmde then Some (True, pmd_lock mm p s1)
             else if \<not> pmd_present pmde then Some (False, s1)
             else Some (True, pmd_lock mm p s1))"

definition pfn_is_match :: "struct_page \<Rightarrow> pfn_t \<Rightarrow> bool" where
  "pfn_is_match pg pfn =
     (let page_pfn = page_to_pfn pg
      in if \<not> PageTransCompound pg \<or> PageHuge pg then page_pfn = pfn
         else pfn \<ge> page_pfn \<and> pfn - page_pfn < hpage_nr_pages pg)"

definition check_pte :: "mm_struct \<Rightarrow> pvmw \<Rightarrow> bool option" where
  "check_pte mm s =
     (case pte s of
        None \<Rightarrow> None
      | Some p \<Rightarrow>
          let v = pte_entry mm (ptl s \<noteq> None) p
          in if PVMW_MIGRATION \<in> flags s then
               (if \<not> is_swap_pte v then Some False
                else if \<not> is_migration_entry (pte_to_swp_entry v) then Some False
                else Some (pfn_is_match (page s) (migration_entry_to_pfn (pte_to_swp_entry v))))
             else if is_swap_pte v then
               (if \<not> is_device_private_entry (pte_to_swp_entry v) then Some False
                else Some (pfn_is_match (page s) (device_private_entry_to_pfn (pte_to_swp_entry v))))
             else
               (if \<not> pte_present v then Some False
                else Some (pfn_is_match (page s) (pte_pfn v))))"

text \<open>\<open>check_pmd\<close> answers 0 (not mapped), 1 (the pmd maps the page) or 2 (go to the leaf level).\<close>

definition check_pmd :: "mm_struct \<Rightarrow> pvmw \<Rightarrow> (int \<times> pvmw) option" where
  "check_pmd mm s =
     (case pmd s of
        None \<Rightarrow> None
      | Some p \<Rightarrow>
          let v = pmd_entry mm (ptl s \<noteq> None) p
          in if pmd_trans_huge v then
               (if PVMW_MIGRATION \<in> flags s then Some (0, s)
                else if \<not> pfn_is_match (page s) (pmd_pfn v) then Some (0, s)
                else Some (1, s))
             else if \<not> pmd_present v then
               (if thp_migration_supported mm then
                  (if PVMW_MIGRATION \<notin> flags s then Some (0, s)
                   else if is_migration_entry (pmd_to_swp_entry v) then
                     (if \<not> pfn_is_match (page s) (migration_entry_to_pfn (pmd_to_swp_entry v))
                      then Some (0, s) else Some (1, s))
                   else Some (0, s))
                else Some (0, s))
             else
               (case unlock_ptl s of None \<Rightarrow> None | Some s1 \<Rightarrow> Some (2, s1)))"

subsection \<open>The walker\<close>

text \<open>
  The labels of \<open>page_vma_mapped_walk\<close>. \<open>restart\<close>, \<open>next_pmd\<close>, \<open>pte_level\<close> and
  \<open>next_pte\<close> are labels of the source; the others name the entry of the function, the
  call of \<open>map_pmd\<close>, the heads of the two \<open>while (1)\<close> loops and the bodies of the two
  \<open>do ... while\<close> loops.
\<close>

datatype label =
  L_entry | L_restart | L_map_pmd | L_check_pmd | L_next_pmd | L_pmd_skip
  | L_pte_level | L_check_pte | L_next_pte | L_pte_skip

text \<open>What a block does: jump to a label, return from the function, or fault.\<close>

datatype ctl = Goto label pvmw | Return bool pvmw | Fault

text \<open>
  The bound that ends both skip loops: the address has reached the end of the area or
  the end of the page's own span.
\<close>

definition walk_exhausted :: "mm_struct \<Rightarrow> pvmw \<Rightarrow> bool" where
  "walk_exhausted mm s =
     (address s \<ge> vm_end (vma s) \<or>
      address s \<ge> vma_address mm (page s) (vma s) + hpage_nr_pages (page s) * PAGE_SIZE mm)"

text \<open>Lines 199 to 220: where to resume, and the huge-page-backed branch.\<close>

definition blk_entry :: "mm_struct \<Rightarrow> pvmw \<Rightarrow> ctl" where
  "blk_entry mm s =
     (if pte s = None \<and> pmd s = None \<and> pud s \<noteq> None then Return False (not_found s)
      else if pmd s \<noteq> None \<and> pte s = None then Goto L_next_pmd s
      else if pte s \<noteq> None then Goto L_next_pte s
      else if PageHuge (page s) then
        (case huge_pte_offset mm (address s) (page_size mm (page s)) of
           None \<Rightarrow> Return False (s\<lparr>pte := None\<rparr>)
         | Some p \<Rightarrow>
             let s1 = s\<lparr>pte := Some p\<rparr>;
                 s2 = spin_lock (huge_pte_lockptr mm p) (s1\<lparr>ptl := Some (huge_pte_lockptr mm p)\<rparr>)
             in (case check_pte mm s2 of
                   None \<Rightarrow> Fault
                 | Some False \<Rightarrow> Return False (not_found s2)
                 | Some True \<Rightarrow> Return True s2))
      else Goto L_restart s)"

text \<open>Lines 221 to 250: the two top levels and the level-3 entry.\<close>

definition blk_restart :: "mm_struct \<Rightarrow> pvmw \<Rightarrow> ctl" where
  "blk_restart mm s =
     (let pgd = pgd_offset mm (address s)
      in if \<not> pgd_present mm pgd then Return False s
         else
           let p4d = p4d_offset mm pgd (address s)
           in if \<not> p4d_present mm p4d then Return False s
              else
                let pu = pud_offset mm p4d (address s);
                    s1 = s\<lparr>pud := Some pu\<rparr>;
                    pude = pud_entry mm (ptl s1 \<noteq> None) pu
                in if pud_trans_huge pude then
                     (let s2 = pud_lock mm pu s1
                      in if pud_trans_huge (pud_entry mm (ptl s2 \<noteq> None) pu) then
                           (if PVMW_MIGRATION \<in> flags s2 then Return False (not_found s2)
                            else if pud_page (pud_entry mm (ptl s2 \<noteq> None) pu) \<noteq> page_to_pfn (page s2)
                            then Return False (not_found s2)
                            else Return True s2)
                         else
                           (case unlock_ptl s2 of None \<Rightarrow> Fault | Some s3 \<Rightarrow> Goto L_map_pmd s3))
                   else if \<not> pud_present pude then Return False s1
                   else Goto L_map_pmd s1)"

text \<open>Lines 252 and 253.\<close>

definition blk_map_pmd :: "mm_struct \<Rightarrow> pvmw \<Rightarrow> ctl" where
  "blk_map_pmd mm s =
     (case map_pmd mm s of
        None \<Rightarrow> Fault
      | Some (False, s1) \<Rightarrow> Goto L_next_pmd s1
      | Some (True, s1) \<Rightarrow> Goto L_check_pmd s1)"

text \<open>Lines 255 to 260: the head of the level-2 loop.\<close>

definition blk_check_pmd :: "mm_struct \<Rightarrow> pvmw \<Rightarrow> ctl" where
  "blk_check_pmd mm s =
     (case check_pmd mm s of
        None \<Rightarrow> Fault
      | Some (pmd_res, s1) \<Rightarrow>
          if pmd_res = 1 then Return True s1
          else if pmd_res = 2 then Goto L_pte_level s1
          else Goto L_next_pmd s1)"

text \<open>Lines 261 to 264.\<close>

definition blk_next_pmd :: "mm_struct \<Rightarrow> pvmw \<Rightarrow> ctl" where
  "blk_next_pmd mm s =
     (if \<not> (PageTransHuge (page s) \<and> compound_order (page s) = HPAGE_PUD_ORDER mm)
      then Return False (not_found s)
      else Goto L_pmd_skip s)"

text \<open>
  Lines 265 to 285: one turn of the \<open>do ... while (pmd_none(*pvmw->pmd))\<close> loop and, when
  the loop ends, the locking before the next \<open>check_pmd\<close>.
\<close>

definition blk_pmd_skip :: "mm_struct \<Rightarrow> pvmw \<Rightarrow> ctl" where
  "blk_pmd_skip mm s =
     (let s1 = s\<lparr>address := address s + HPAGE_PMD_SIZE mm\<rparr>
      in if walk_exhausted mm s1 then Return False (not_found s1)
         else if address s1 mod PUD_SIZE mm = 0 then Goto L_restart (unlock_ptl_if_set s1)
         else
           (case pmd s1 of
              None \<Rightarrow> Fault
            | Some p \<Rightarrow>
                let s2 = s1\<lparr>pmd := Some (p + 1)\<rparr>
                in if pmd_none (pmd_entry mm (ptl s2 \<noteq> None) (p + 1)) then Goto L_pmd_skip s2
                   else Goto L_check_pmd (if ptl s2 = None then pmd_lock mm (p + 1) s2 else s2)))"

text \<open>Lines 288 to 290.\<close>

definition blk_pte_level :: "mm_struct \<Rightarrow> pvmw \<Rightarrow> ctl" where
  "blk_pte_level mm s =
     (case map_pte mm s of
        None \<Rightarrow> Fault
      | Some (False, s1) \<Rightarrow> Goto L_next_pte s1
      | Some (True, s1) \<Rightarrow> Goto L_check_pte s1)"

text \<open>Lines 291 to 293: the head of the leaf loop.\<close>

definition blk_check_pte :: "mm_struct \<Rightarrow> pvmw \<Rightarrow> ctl" where
  "blk_check_pte mm s =
     (case check_pte mm s of
        None \<Rightarrow> Fault
      | Some True \<Rightarrow> Return True s
      | Some False \<Rightarrow> Goto L_next_pte s)"

text \<open>Lines 294 to 297.\<close>

definition blk_next_pte :: "mm_struct \<Rightarrow> pvmw \<Rightarrow> ctl" where
  "blk_next_pte mm s =
     (if \<not> PageTransHuge (page s) \<or> PageHuge (page s) then Return False (not_found s)
      else Goto L_pte_skip s)"

text \<open>
  Lines 298 to 321: one turn of the \<open>do ... while (pte_none(*pvmw->pte))\<close> loop and, when
  the loop ends, the locking before the next \<open>check_pte\<close>. \<open>pte_lockptr\<close> reads the
  level-2 entry behind \<open>pvmw->pmd\<close>.
\<close>

definition blk_pte_skip :: "mm_struct \<Rightarrow> pvmw \<Rightarrow> ctl" where
  "blk_pte_skip mm s =
     (let s1 = s\<lparr>address := address s + PAGE_SIZE mm\<rparr>
      in if walk_exhausted mm s1 then Return False (not_found s1)
         else if address s1 mod PMD_SIZE mm = 0 then Goto L_restart (unlock_ptl_if_set (pte_unmap s1))
         else
           (case pte s1 of
              None \<Rightarrow> Fault
            | Some p \<Rightarrow>
                let s2 = s1\<lparr>pte := Some (p + 1)\<rparr>
                in if pte_none (pte_entry mm (ptl s2 \<noteq> None) (p + 1)) then Goto L_pte_skip s2
                   else if ptl s2 \<noteq> None then Goto L_check_pte s2
                   else
                     (case pmd s2 of
                        None \<Rightarrow> Fault
                      | Some pm \<Rightarrow>
                          Goto L_check_pte
                            (spin_lock (pte_lockptr mm pm) (s2\<lparr>ptl := Some (pte_lockptr mm pm)\<rparr>)))))"

fun step :: "mm_struct \<Rightarrow> label \<Rightarrow> pvmw \<Rightarrow> ctl" where
  "step mm L_entry s = blk_entry mm s"
| "step mm L_restart s = blk_restart mm s"
| "step mm L_map_pmd s = blk_map_pmd mm s"
| "step mm L_check_pmd s = blk_check_pmd mm s"
| "step mm L_next_pmd s = blk_next_pmd mm s"
| "step mm L_pmd_skip s = blk_pmd_skip mm s"
| "step mm L_pte_level s = blk_pte_level mm s"
| "step mm L_check_pte s = blk_check_pte mm s"
| "step mm L_next_pte s = blk_next_pte mm s"
| "step mm L_pte_skip s = blk_pte_skip mm s"

text \<open>
  Running the blocks. The two skip loops and \<open>goto restart\<close> can go round as long as the
  tables hold empty entries, so the run is bounded by fuel: one unit for each block.
\<close>

fun walk_from :: "mm_struct \<Rightarrow> nat \<Rightarrow> label \<Rightarrow> pvmw \<Rightarrow> (bool \<times> pvmw) outcome" where
  "walk_from mm 0 l s = OutOfFuel"
| "walk_from mm (Suc n) l s =
     (case step mm l s of
        Goto l' s' \<Rightarrow> walk_from mm n l' s'
      | Return b s' \<Rightarrow> Returns (b, s')
      | Fault \<Rightarrow> Crashed)"

definition page_vma_mapped_walk :: "mm_struct \<Rightarrow> nat \<Rightarrow> pvmw \<Rightarrow> (bool \<times> pvmw) outcome" where
  "page_vma_mapped_walk mm fuel s = walk_from mm fuel L_entry s"

subsection \<open>The containment check\<close>

text \<open>
  \<open>page_mapped_in_vma\<close> builds its cursor on the stack; the model returns the cursor
  with the answer, for the locks and mappings it records.
\<close>

definition pvmw_init :: "struct_page \<Rightarrow> vm_area_struct \<Rightarrow> pvmw_flag set \<Rightarrow> pvmw" where
  "pvmw_init pg v fl =
     \<lparr>page = pg, vma = v, address = 0, flags = fl, pud = None, pmd = None, pte = None,
      ptl = None, held = [], pte_mapped = False\<rparr>"

definition page_mapped_in_vma ::
  "mm_struct \<Rightarrow> nat \<Rightarrow> struct_page \<Rightarrow> vm_area_struct \<Rightarrow> (int \<times> pvmw) outcome" where
  "page_mapped_in_vma mm fuel pg v =
     (let s = pvmw_init pg v {PVMW_SYNC};
          start = vma_address mm pg v;
          end = start + PAGE_SIZE mm * (hpage_nr_pages pg - 1)
      in if end < vm_start v \<or> start \<ge> vm_end v then Returns (0, s)
         else
           (case page_vma_mapped_walk mm fuel (s\<lparr>address := max start (vm_start v)\<rparr>) of
              Returns (False, s1) \<Rightarrow> Returns (0, s1)
            | Returns (True, s1) \<Rightarrow> Returns (1, page_vma_mapped_walk_done s1)
            | Crashed \<Rightarrow> Crashed
            | OutOfFuel \<Rightarrow> OutOfFuel))"

subsection \<open>The state of a paused walk\<close>

text \<open>
  Between two calls the cursor belongs to the caller. \<open>lock_consistent\<close>: the walker
  holds the lock recorded in \<open>ptl\<close> and no other. \<open>wf_paused\<close> describes the cursor
  as the caller first sets it up (handles and lock \<open>NULL\<close>) and as a call that returned
  \<open>true\<close> leaves it: a mapped leaf table has its handle set, and a cursor with no handle
  records no lock.
\<close>

definition lock_consistent :: "pvmw \<Rightarrow> bool" where
  "lock_consistent s = (held s = (case ptl s of None \<Rightarrow> [] | Some l \<Rightarrow> [l]))"

definition wf_paused :: "pvmw \<Rightarrow> bool" where
  "wf_paused s =
     (lock_consistent s \<and> (pte_mapped s \<longrightarrow> pte s \<noteq> None) \<and>
      (pud s = None \<and> pmd s = None \<and> pte s = None \<longrightarrow> ptl s = None))"

text \<open>What holds of the cursor on arrival at each label, for a call entered in a paused state.\<close>

fun linv :: "label \<Rightarrow> pvmw \<Rightarrow> bool" where
  "linv L_entry s = wf_paused s"
| "linv L_restart s = (ptl s = None \<and> held s = [] \<and> \<not> pte_mapped s)"
| "linv L_map_pmd s = (ptl s = None \<and> held s = [] \<and> \<not> pte_mapped s)"
| "linv L_check_pmd s = (lock_consistent s \<and> \<not> pte_mapped s)"
| "linv L_next_pmd s = (lock_consistent s \<and> \<not> pte_mapped s)"
| "linv L_pmd_skip s = (lock_consistent s \<and> \<not> pte_mapped s)"
| "linv L_pte_level s = (ptl s = None \<and> held s = [])"
| "linv L_check_pte s = (lock_consistent s \<and> (pte_mapped s \<longrightarrow> pte s \<noteq> None))"
| "linv L_next_pte s = (lock_consistent s \<and> (pte_mapped s \<longrightarrow> pte s \<noteq> None))"
| "linv L_pte_skip s = (lock_consistent s \<and> (pte_mapped s \<longrightarrow> pte s \<noteq> None))"

fun ctl_ok :: "ctl \<Rightarrow> bool" where
  "ctl_ok (Goto l s) = linv l s"
| "ctl_ok (Return True s) = wf_paused s"
| "ctl_ok (Return False s) = (held s = [] \<and> \<not> pte_mapped s)"
| "ctl_ok Fault = True"

subsection \<open>Notions of the specification\<close>

text \<open>
  The address lies in the area \<open>[vm_start, vm_end)\<close>; the address lies in the span the
  page would take in the area, from its expected address over \<open>hpage_nr_pages\<close>
  pages. Both are compared as the code compares them, in \<open>unsigned long\<close>.
\<close>

definition in_region :: "pvmw \<Rightarrow> bool" where
  "in_region s = (vm_start (vma s) \<le> address s \<and> address s < vm_end (vma s))"

definition in_page_span :: "mm_struct \<Rightarrow> pvmw \<Rightarrow> bool" where
  "in_page_span mm s =
     (vma_address mm (page s) (vma s) \<le> address s \<and>
      address s < vma_address mm (page s) (vma s) + hpage_nr_pages (page s) * PAGE_SIZE mm)"

text \<open>
  The end of the area is far enough below the top of the address space for one step of
  either skip loop not to wrap around.
\<close>

definition region_no_wrap :: "mm_struct \<Rightarrow> vm_area_struct \<Rightarrow> bool" where
  "region_no_wrap mm v =
     (unat (vm_end v) + unat (PAGE_SIZE mm) \<le> 2 ^ 64 \<and>
      unat (vm_end v) + unat (HPAGE_PMD_SIZE mm) \<le> 2 ^ 64)"

text \<open>What a block may hand on, for a walk that stays in the area \<open>v\<close>.\<close>

fun ctl_region :: "vm_area_struct \<Rightarrow> ctl \<Rightarrow> bool" where
  "ctl_region v (Goto l s) = (vma s = v \<and> in_region s)"
| "ctl_region v (Return True s) = (vma s = v \<and> in_region s)"
| "ctl_region v (Return False s) = True"
| "ctl_region v Fault = True"

text \<open>
  A frame lies in the frame range of the target page: the \<open>hpage_nr_pages\<close> frames
  from its own frame on, counted without wrap-around.
\<close>

definition frame_in_range :: "struct_page \<Rightarrow> pfn_t \<Rightarrow> bool" where
  "frame_in_range pg f =
     (unat (page_to_pfn pg) \<le> unat f \<and> unat f < unat (page_to_pfn pg) + unat (hpage_nr_pages pg))"

text \<open>
  The containment check, in the words of the spec: the last address of the page's span,
  counted without wrap-around, and the span falling entirely outside the area (it ends
  before the area starts, or starts at or after its end).
\<close>

definition span_last :: "mm_struct \<Rightarrow> struct_page \<Rightarrow> vm_area_struct \<Rightarrow> nat" where
  "span_last mm pg v =
     unat (vma_address mm pg v) + unat (PAGE_SIZE mm) * (unat (hpage_nr_pages pg) - 1)"

definition span_outside_region :: "mm_struct \<Rightarrow> struct_page \<Rightarrow> vm_area_struct \<Rightarrow> bool" where
  "span_outside_region mm pg v =
     (span_last mm pg v < unat (vm_start v) \<or> unat (vm_end v) \<le> unat (vma_address mm pg v))"

subsection \<open>A machine to run the walker on\<close>

text \<open>
  Sizes of a four-level table with 4 KiB pages. The handle of an entry is the number of
  the range it covers, so that \<open>p + 1\<close> is the entry of the next range. The page's
  expected address is the start of the area. The tables and the huge-page lookup are
  arguments; a table that ignores its first argument is not changed by anyone while the
  walker runs.
\<close>

definition demo_mm ::
  "(bool \<Rightarrow> ptr \<Rightarrow> pud_t) \<Rightarrow> (bool \<Rightarrow> ptr \<Rightarrow> pmd_t) \<Rightarrow> (bool \<Rightarrow> ptr \<Rightarrow> pte_t) \<Rightarrow>
   (addr \<Rightarrow> addr \<Rightarrow> ptr option) \<Rightarrow> mm_struct" where
  "demo_mm pu pm pt hp =
     \<lparr>PAGE_SIZE = 0x1000, PMD_SIZE = 0x200000, PUD_SIZE = 0x40000000,
      HPAGE_PMD_SIZE = 0x200000, HPAGE_PUD_ORDER = 18, thp_migration_supported = True,
      vma_address = (\<lambda>pg v. vm_start v),
      pgd_offset = (\<lambda>a. unat (a div 0x8000000000)), pgd_present = (\<lambda>p. True),
      p4d_offset = (\<lambda>p a. p), p4d_present = (\<lambda>p. True),
      pud_offset = (\<lambda>p a. unat (a div 0x40000000)), pud_entry = pu,
      pmd_offset = (\<lambda>p a. unat (a div 0x200000)), pmd_entry = pm,
      pte_offset_map = (\<lambda>p a. unat (a div 0x1000)), pte_entry = pt,
      huge_pte_offset = hp,
      pud_lockptr = (\<lambda>p. 0), pmd_lockptr = (\<lambda>p. 1), pte_lockptr = (\<lambda>p. 2),
      huge_pte_lockptr = (\<lambda>p. 3)\<rparr>"

text \<open>
  Four target pages: a normal page, a transparent huge page of 512 frames, a transparent
  huge page of level-3 size (order 18), and a huge-page-backed page of 512 frames.
\<close>

definition normal_page :: struct_page where
  "normal_page = \<lparr>page_to_pfn = 0x5000, PageTransCompound = False, PageHuge = False,
     PageTransHuge = False, compound_order = 0, hpage_nr_pages = 1\<rparr>"

definition thp_page :: struct_page where
  "thp_page = \<lparr>page_to_pfn = 0x5000, PageTransCompound = True, PageHuge = False,
     PageTransHuge = True, compound_order = 9, hpage_nr_pages = 512\<rparr>"

definition pud_thp_page :: struct_page where
  "pud_thp_page = \<lparr>page_to_pfn = 0x40000, PageTransCompound = True, PageHuge = False,
     PageTransHuge = True, compound_order = 18, hpage_nr_pages = 0x40000\<rparr>"

definition hugetlb_page :: struct_page where
  "hugetlb_page = \<lparr>page_to_pfn = 0x8000, PageTransCompound = True, PageHuge = True,
     PageTransHuge = True, compound_order = 9, hpage_nr_pages = 512\<rparr>"

text \<open>
  A cursor as the caller sets it up for the first call, on the area \<open>[lo, hi)\<close> at
  address \<open>a\<close>, and a paused cursor with chosen flags, handles and lock.
\<close>

definition fresh_s :: "struct_page \<Rightarrow> addr \<Rightarrow> addr \<Rightarrow> addr \<Rightarrow> pvmw" where
  "fresh_s pg lo hi a = (pvmw_init pg \<lparr>vm_start = lo, vm_end = hi\<rparr> {})\<lparr>address := a\<rparr>"

definition mig_s :: "struct_page \<Rightarrow> pvmw_flag set \<Rightarrow> ptr option \<Rightarrow> ptr option \<Rightarrow> lock \<Rightarrow> pvmw" where
  "mig_s pg fl pm pt l =
     \<lparr>page = pg, vma = \<lparr>vm_start = 0, vm_end = 0x40000000\<rparr>, address = 0x7000, flags = fl,
      pud = None, pmd = pm, pte = pt, ptl = Some l, held = [l], pte_mapped = False\<rparr>"

text \<open>
  \<open>edge_mm\<close>: the last page below 1 GiB is mapped by a leaf entry; nothing is mapped
  from 1 GiB on. \<open>edge_s\<close> is paused on that entry, as a call that returned \<open>true\<close>
  left it. \<open>short_vma_s\<close> is paused on the second and last page of an area that
  maps the first two pages of the transparent huge page. \<open>edge_pmd_s\<close> is paused on
  the last level-2 entry below 2 GiB, for the page of level-3 size. \<open>far_mm\<close> expects
  the page at \<open>0x50000000\<close> whatever the area.
\<close>

definition edge_mm :: mm_struct where
  "edge_mm = demo_mm (\<lambda>lk p. if p = 0 then PUD_table 0x100 else PUD_none)
                     (\<lambda>lk p. if p = 0x1FF then PMD_table 0x101 else PMD_none)
                     (\<lambda>lk p. if p = 0x3FFFF then PTE_present 0x5000 else PTE_none)
                     (\<lambda>a sz. None)"

definition edge_s :: pvmw where
  "edge_s = \<lparr>page = thp_page, vma = \<lparr>vm_start = 0x3FFFF000, vm_end = 0x40002000\<rparr>,
      address = 0x3FFFF000, flags = {}, pud = Some 0, pmd = Some 0x1FF, pte = Some 0x3FFFF,
      ptl = Some 2, held = [2], pte_mapped = True\<rparr>"

definition short_vma_s :: pvmw where
  "short_vma_s = \<lparr>page = thp_page, vma = \<lparr>vm_start = 0x10000000, vm_end = 0x10002000\<rparr>,
      address = 0x10001000, flags = {}, pud = Some 0, pmd = Some 0x80, pte = Some 0x10001,
      ptl = Some 2, held = [2], pte_mapped = True\<rparr>"

definition edge_pmd_s :: pvmw where
  "edge_pmd_s = \<lparr>page = pud_thp_page, vma = \<lparr>vm_start = 0x7FE00000, vm_end = 0xC0000000\<rparr>,
      address = 0x7FE00000, flags = {}, pud = Some 1, pmd = Some 0x3FF, pte = None,
      ptl = Some 1, held = [1], pte_mapped = False\<rparr>"

definition far_mm :: mm_struct where
  "far_mm = edge_mm\<lparr>vma_address := (\<lambda>pg v. 0x50000000)\<rparr>"

text \<open>
  \<open>mig_mm\<close>: a huge level-2 entry, a level-2 migration placeholder, and two leaf
  migration placeholders. \<open>hugetlb_mm\<close>: the huge-page lookup finds the leaf entry 9,
  which maps the huge-page-backed page; the level-2 entry 0 maps the transparent huge
  page.
\<close>

definition mig_mm :: mm_struct where
  "mig_mm = demo_mm (\<lambda>lk p. PUD_table 0x100)
                    (\<lambda>lk p. if p = 0 then PMD_trans_huge 0x5000
                             else if p = 1 then PMD_swap (Migration 0x5000) else PMD_none)
                    (\<lambda>lk p. if p = 7 then PTE_swap (Migration 0x5003)
                             else if p = 8 then PTE_swap (Migration 0x8001) else PTE_none)
                    (\<lambda>a sz. Some 8)"

definition hugetlb_mm :: mm_struct where
  "hugetlb_mm = demo_mm (\<lambda>lk p. PUD_table 0x100)
                        (\<lambda>lk p. if p = 0 then PMD_trans_huge 0x5000 else PMD_none)
                        (\<lambda>lk p. if p = 9 then PTE_present 0x8000 else PTE_none)
                        (\<lambda>a sz. Some 9)"

text \<open>
  \<open>pud_huge_mm\<close>: every level-3 entry is a huge mapping of the frame \<open>0x9000\<close>.
  \<open>pud_split_mm\<close>: the same before the lock is taken, a table under the lock.
\<close>

definition pud_huge_mm :: mm_struct where
  "pud_huge_mm = demo_mm (\<lambda>lk p. PUD_trans_huge 0x9000) (\<lambda>lk p. PMD_none) (\<lambda>lk p. PTE_none)
                         (\<lambda>a sz. None)"

definition pud_split_mm :: mm_struct where
  "pud_split_mm = demo_mm (\<lambda>lk p. if lk then PUD_table 0x100 else PUD_trans_huge 0x9000)
                          (\<lambda>lk p. PMD_none) (\<lambda>lk p. PTE_none) (\<lambda>a sz. None)"

text \<open>
  \<open>pud_thp_mm\<close>: the page of level-3 size is mapped by the level-2 entries 512 and
  513. \<open>pud_thp_s1\<close> is the cursor after the first of them was reported.
\<close>

definition pud_thp_mm :: mm_struct where
  "pud_thp_mm = demo_mm (\<lambda>lk p. if p = 1 then PUD_table 0x100 else PUD_none)
                        (\<lambda>lk p. if p = 512 then PMD_trans_huge 0x40000
                                 else if p = 513 then PMD_trans_huge 0x40200 else PMD_none)
                        (\<lambda>lk p. PTE_none) (\<lambda>a sz. None)"

definition pud_thp_s1 :: pvmw where
  "pud_thp_s1 = (fresh_s pud_thp_page 0x40000000 0x80000000 0x40000000)
                  \<lparr>pud := Some 1, pmd := Some 512, ptl := Some 1, held := [1]\<rparr>"

text \<open>\<open>at_end_mm\<close>: the leaf entry of the address \<open>0x2000\<close> maps the normal page.\<close>

definition at_end_mm :: mm_struct where
  "at_end_mm = demo_mm (\<lambda>lk p. PUD_table 0x100) (\<lambda>lk p. PMD_table 0x101)
                       (\<lambda>lk p. if p = 2 then PTE_present 0x5000 else PTE_none) (\<lambda>a sz. None)"

text \<open>
  \<open>split_mm\<close>: of the page of level-3 size, the 2 MiB from \<open>0x40000000\<close> are split
  into a leaf table, whose last entry maps the frame \<open>0x401FF\<close>; the 2 MiB after them
  are mapped by the huge level-2 entry 513. \<open>split_s\<close> is the cursor that a first call
  at \<open>0x401FF000\<close> leaves on that last leaf entry, \<open>split_s2\<close> the cursor the call
  after it leaves. \<open>top_vma\<close> is an area of two pages that ends one page below the top
  of the address space.
\<close>

definition split_mm :: mm_struct where
  "split_mm = demo_mm (\<lambda>lk p. if p = 1 then PUD_table 0x100 else PUD_none)
                      (\<lambda>lk p. if p = 512 then PMD_table 0x101
                               else if p = 513 then PMD_trans_huge 0x40200 else PMD_none)
                      (\<lambda>lk p. if p = 0x401FF then PTE_present 0x401FF else PTE_none)
                      (\<lambda>a sz. None)"

definition split_s :: pvmw where
  "split_s = (fresh_s pud_thp_page 0x40000000 0x80000000 0x401FF000)
               \<lparr>pud := Some 1, pmd := Some 512, pte := Some 0x401FF, ptl := Some 2, held := [2],
                pte_mapped := True\<rparr>"

definition split_s2 :: pvmw where
  "split_s2 = split_s\<lparr>address := 0x40200000, pmd := Some 513, ptl := Some 1, held := [1],
                       pte_mapped := False\<rparr>"

definition top_vma :: vm_area_struct where
  "top_vma = \<lparr>vm_start = 0xFFFFFFFFFFFFD000, vm_end = 0xFFFFFFFFFFFFF000\<rparr>"

section \<open>Properties\<close>

subsection \<open>Auxiliary facts\<close>

lemmas prim_defs = spin_lock_def spin_unlock_def pte_unmap_def pud_lock_def pmd_lock_def
  page_vma_mapped_walk_done_def not_found_def unlock_ptl_def unlock_ptl_if_set_def

lemmas blk_defs = blk_entry_def blk_restart_def blk_map_pmd_def blk_check_pmd_def blk_next_pmd_def
  blk_pmd_skip_def blk_pte_level_def blk_check_pte_def blk_next_pte_def blk_pte_skip_def
  walk_exhausted_def map_pte_def map_pmd_def check_pte_def check_pmd_def pfn_is_match_def
  is_swap_pte_def is_pmd_migration_entry_def page_size_def

lemma walk_from_numeral:
  "walk_from mm (numeral k) l s =
     (case step mm l s of
        Goto l' s' \<Rightarrow> walk_from mm (pred_numeral k) l' s'
      | Return b s' \<Rightarrow> Returns (b, s')
      | Fault \<Rightarrow> Crashed)"
proof -
  have "numeral k = Suc (pred_numeral k)" by (rule numeral_eq_Suc)
  then show ?thesis by (simp only: walk_from.simps)
qed

text \<open>Locks and mappings, block by block.\<close>

lemma not_found_clean:
  "lock_consistent s \<Longrightarrow> (pte_mapped s \<longrightarrow> pte s \<noteq> None) \<Longrightarrow>
   held (not_found s) = [] \<and> \<not> pte_mapped (not_found s)"
  by (auto simp: prim_defs lock_consistent_def Let_def split: option.splits)

lemma hugetlb_locked_ok:
  fixes l :: lock and p :: ptr
  assumes "ptl s = None" "held s = []" "\<not> pte_mapped s"
  defines "s2 \<equiv> spin_lock l (s\<lparr>pte := Some p, ptl := Some l\<rparr>)"
  shows "wf_paused s2" and "held (not_found s2) = [] \<and> \<not> pte_mapped (not_found s2)"
proof -
  have lc: "lock_consistent s2" and pt: "pte s2 \<noteq> None"
    using assms by (simp_all add: lock_consistent_def spin_lock_def)
  then show "wf_paused s2" using assms by (simp add: wf_paused_def spin_lock_def)
  from lc pt show "held (not_found s2) = [] \<and> \<not> pte_mapped (not_found s2)"
    by (intro not_found_clean) simp_all
qed

lemma entry_ok: "wf_paused s \<Longrightarrow> ctl_ok (blk_entry mm s)"
proof -
  assume wf: "wf_paused s"
  then have nf: "held (not_found s) = [] \<and> \<not> pte_mapped (not_found s)"
    by (simp add: wf_paused_def not_found_clean)
  show ?thesis
  proof (cases "pte s = None \<and> pmd s = None \<and> pud s \<noteq> None")
    case True
    with nf show ?thesis by (simp add: blk_entry_def)
  next
    case a: False
    show ?thesis
    proof (cases "pmd s \<noteq> None \<and> pte s = None")
      case True
      with a wf show ?thesis by (auto simp: blk_entry_def wf_paused_def)
    next
      case b: False
      show ?thesis
      proof (cases "pte s \<noteq> None")
        case True
        with a b wf show ?thesis by (auto simp: blk_entry_def wf_paused_def)
      next
        case c: False
        with a b have nulls: "pte s = None" "pmd s = None" "pud s = None" by auto
        with wf have clean: "ptl s = None" "held s = []" "\<not> pte_mapped s"
          by (auto simp: wf_paused_def lock_consistent_def)
        show ?thesis
        proof (cases "PageHuge (page s)")
          case False
          with nulls clean show ?thesis by (simp add: blk_entry_def)
        next
          case True
          show ?thesis
          proof (cases "huge_pte_offset mm (address s) (page_size mm (page s))")
            case None
            with True nulls clean show ?thesis by (simp add: blk_entry_def)
          next
            case (Some p)
            from hugetlb_locked_ok [OF clean, of "huge_pte_lockptr mm p" p]
            show ?thesis using True nulls Some
              by (simp add: blk_entry_def Let_def split: option.splits bool.splits)
          qed
        qed
      qed
    qed
  qed
qed

lemma restart_ok: "linv L_restart s \<Longrightarrow> ctl_ok (blk_restart mm s)"
  unfolding blk_restart_def
  by (auto simp: Let_def prim_defs wf_paused_def lock_consistent_def split: option.splits)

lemma map_pmd_ok: "linv L_map_pmd s \<Longrightarrow> ctl_ok (blk_map_pmd mm s)"
  unfolding blk_map_pmd_def map_pmd_def
  by (auto simp: Let_def prim_defs lock_consistent_def split: option.splits bool.splits)

lemma check_pmd_ok: "linv L_check_pmd s \<Longrightarrow> ctl_ok (blk_check_pmd mm s)"
  unfolding blk_check_pmd_def check_pmd_def
  by (auto simp: Let_def prim_defs wf_paused_def lock_consistent_def split: option.splits)

lemma next_pmd_ok: "linv L_next_pmd s \<Longrightarrow> ctl_ok (blk_next_pmd mm s)"
  unfolding blk_next_pmd_def
  by (auto simp: not_found_clean)

lemma pmd_skip_ok: "linv L_pmd_skip s \<Longrightarrow> ctl_ok (blk_pmd_skip mm s)"
  unfolding blk_pmd_skip_def
  by (auto simp: Let_def prim_defs lock_consistent_def split: option.splits)

lemma pte_level_ok: "linv L_pte_level s \<Longrightarrow> ctl_ok (blk_pte_level mm s)"
  unfolding blk_pte_level_def map_pte_def
  by (auto simp: Let_def prim_defs lock_consistent_def split: option.splits bool.splits)

lemma check_pte_ok: "linv L_check_pte s \<Longrightarrow> ctl_ok (blk_check_pte mm s)"
  unfolding blk_check_pte_def check_pte_def
  by (auto simp: Let_def wf_paused_def split: option.splits bool.splits)

lemma next_pte_ok: "linv L_next_pte s \<Longrightarrow> ctl_ok (blk_next_pte mm s)"
  unfolding blk_next_pte_def
  by (auto simp: not_found_clean)

lemma pte_skip_ok: "linv L_pte_skip s \<Longrightarrow> ctl_ok (blk_pte_skip mm s)"
  unfolding blk_pte_skip_def
  by (auto simp: Let_def prim_defs lock_consistent_def split: option.splits)

lemma step_ok: "linv l s \<Longrightarrow> ctl_ok (step mm l s)"
  by (cases l) (simp_all add: entry_ok restart_ok map_pmd_ok check_pmd_ok next_pmd_ok
      pmd_skip_ok pte_level_ok check_pte_ok next_pte_ok pte_skip_ok)

lemma walk_from_ok:
  "linv l s \<Longrightarrow> walk_from mm n l s = Returns (b, s') \<Longrightarrow>
   (if b then wf_paused s' else held s' = [] \<and> \<not> pte_mapped s')"
proof (induction n arbitrary: l s)
  case 0
  then show ?case by simp
next
  case (Suc n)
  from Suc.prems(1) have ok: "ctl_ok (step mm l s)" by (rule step_ok)
  show ?case
  proof (cases "step mm l s")
    case (Goto l' s1)
    with ok Suc.prems(2) Suc.IH [of l' s1] show ?thesis by simp
  next
    case (Return b1 s1)
    with ok Suc.prems(2) show ?thesis by (cases b1) auto
  next
    case Fault
    with Suc.prems(2) show ?thesis by simp
  qed
qed

lemma wf_paused_init: "wf_paused (pvmw_init pg v fl)"
  by (simp add: wf_paused_def lock_consistent_def pvmw_init_def)

lemma walk_true_paused:
  "wf_paused s \<Longrightarrow> page_vma_mapped_walk mm fuel s = Returns (True, s') \<Longrightarrow> wf_paused s'"
  using walk_from_ok [of L_entry s mm fuel True s'] by (simp add: page_vma_mapped_walk_def)

text \<open>The two skip loops.\<close>

lemma walk_resume_leaf:
  "pte s = Some p \<Longrightarrow> page_vma_mapped_walk mm (Suc n) s = walk_from mm n L_next_pte s"
  by (simp add: page_vma_mapped_walk_def blk_entry_def)

lemma next_pte_thp:
  "PageTransHuge (page s) \<Longrightarrow> \<not> PageHuge (page s) \<Longrightarrow>
   walk_from mm (Suc n) L_next_pte s = walk_from mm n L_pte_skip s"
  by (simp add: blk_next_pte_def)

lemma pte_skip_exhausted:
  "walk_exhausted mm (s\<lparr>address := address s + PAGE_SIZE mm\<rparr>) \<Longrightarrow>
   blk_pte_skip mm s = Return False (not_found (s\<lparr>address := address s + PAGE_SIZE mm\<rparr>))"
  by (simp add: blk_pte_skip_def)

lemma pte_skip_continues:
  "\<not> walk_exhausted mm (s\<lparr>address := address s + PAGE_SIZE mm\<rparr>) \<Longrightarrow>
   blk_pte_skip mm s \<noteq> Return b s'"
  by (simp add: blk_pte_skip_def Let_def split: option.splits)

lemma pmd_skip_exhausted:
  "walk_exhausted mm (s\<lparr>address := address s + HPAGE_PMD_SIZE mm\<rparr>) \<Longrightarrow>
   blk_pmd_skip mm s = Return False (not_found (s\<lparr>address := address s + HPAGE_PMD_SIZE mm\<rparr>))"
  by (simp add: blk_pmd_skip_def)

lemma pte_skip_boundary:
  "\<not> walk_exhausted mm (s\<lparr>address := address s + PAGE_SIZE mm\<rparr>) \<Longrightarrow>
   (address s + PAGE_SIZE mm) mod PMD_SIZE mm = 0 \<Longrightarrow>
   blk_pte_skip mm s =
     Goto L_restart (unlock_ptl_if_set (pte_unmap (s\<lparr>address := address s + PAGE_SIZE mm\<rparr>)))"
  by (simp add: blk_pte_skip_def)

lemma pmd_skip_boundary:
  "\<not> walk_exhausted mm (s\<lparr>address := address s + HPAGE_PMD_SIZE mm\<rparr>) \<Longrightarrow>
   (address s + HPAGE_PMD_SIZE mm) mod PUD_SIZE mm = 0 \<Longrightarrow>
   blk_pmd_skip mm s =
     Goto L_restart (unlock_ptl_if_set (s\<lparr>address := address s + HPAGE_PMD_SIZE mm\<rparr>))"
  by (simp add: blk_pmd_skip_def)

lemma unlock_ptl_if_set_facts:
  "ptl (unlock_ptl_if_set s) = None" "address (unlock_ptl_if_set s) = address s"
  "pte_mapped (unlock_ptl_if_set s) = pte_mapped s"
  "lock_consistent s \<Longrightarrow> held (unlock_ptl_if_set s) = []"
  by (simp_all add: unlock_ptl_if_set_def spin_unlock_def lock_consistent_def split: option.splits)

lemma restart_top_level_absent:
  "\<not> pgd_present mm (pgd_offset mm (address s)) \<Longrightarrow> blk_restart mm s = Return False s"
  by (simp add: blk_restart_def)

lemma edge_run:
  "page_vma_mapped_walk edge_mm 4 edge_s =
     Returns (False, edge_s\<lparr>address := 0x40000000, pud := Some 1, ptl := None, held := [],
                            pte_mapped := False\<rparr>)"
  by (simp add: page_vma_mapped_walk_def walk_from_numeral blk_defs prim_defs edge_mm_def
      edge_s_def demo_mm_def thp_page_def Let_def)

subsection \<open>Cleanup on every \<open>false\<close> result\<close>

text \<open>
  C1. A call entered with a paused cursor (freshly set up, or left by a call that returned
  \<open>true\<close>) that returns \<open>false\<close> leaves no lock held and no leaf table mapped, whichever
  exit it took: \<open>not_found\<close>, or one of the plain \<open>return false\<close> taken when a
  directory level is absent. The fields \<open>ptl\<close> and \<open>pte\<close> themselves may keep their
  old values.
\<close>

theorem walk_false_releases:
  "wf_paused s \<Longrightarrow> page_vma_mapped_walk mm fuel s = Returns (False, s') \<Longrightarrow>
   held s' = [] \<and> \<not> pte_mapped s'"
  using walk_from_ok [of L_entry s mm fuel False s'] by (simp add: page_vma_mapped_walk_def)

text \<open>
  The paused cursor \<open>edge_s\<close> holds the leaf lock and a mapped leaf table. The next call
  steps over the 1 GiB boundary, restarts, finds the level-3 entry absent and returns by
  the plain \<open>return false\<close> of line 250.
\<close>

theorem walk_false_releases_witness:
  "wf_paused edge_s \<and> held edge_s = [2] \<and> pte_mapped edge_s \<and>
   page_vma_mapped_walk edge_mm 4 edge_s =
     Returns (False, edge_s\<lparr>address := 0x40000000, pud := Some 1, ptl := None, held := [],
                            pte_mapped := False\<rparr>) \<and>
   held (edge_s\<lparr>address := 0x40000000, pud := Some 1, ptl := None, held := [],
                 pte_mapped := False\<rparr>) = [] \<and>
   \<not> pte_mapped (edge_s\<lparr>address := 0x40000000, pud := Some 1, ptl := None, held := [],
                         pte_mapped := False\<rparr>)"
proof -
  have wf: "wf_paused edge_s"
    by (simp add: wf_paused_def lock_consistent_def edge_s_def)
  from walk_false_releases [OF wf edge_run] wf edge_run show ?thesis
    by (simp add: edge_s_def)
qed

subsection \<open>Where leaf skipping ends\<close>

text \<open>
  C2 as stated does not hold. \<open>short_vma_s\<close> is paused on the last page of its area,
  for a transparent huge page of 512 frames of which the area maps the first two. The
  next address \<open>0x10002000\<close> has left the area and lies inside the page's own span, where
  the claim lets the scan go on. The walker returns \<open>false\<close>.
\<close>

theorem leaf_skip_both_ranges_counterexample:
  "PageTransHuge (page short_vma_s) \<and> \<not> PageHuge (page short_vma_s) \<and>
   hpage_nr_pages (page short_vma_s) = 512 \<and>
   in_page_span edge_mm (short_vma_s\<lparr>address := 0x10002000\<rparr>) \<and>
   page_vma_mapped_walk edge_mm 3 short_vma_s =
     Returns (False, short_vma_s\<lparr>address := 0x10002000, held := [], pte_mapped := False\<rparr>)"
  by (simp add: page_vma_mapped_walk_def walk_from_numeral blk_defs prim_defs edge_mm_def
      short_vma_s_def demo_mm_def thp_page_def in_page_span_def Let_def)

text \<open>
  C2, amended. While skipping leaf entries for a transparent huge page (a resumed call
  with the leaf handle set), the walker steps to the next page and reports exhaustion as
  soon as the new address has reached the end of the area or the end of the page's own
  span, whichever comes first; the scan goes on only while the address is below both
  ends.
\<close>

theorem leaf_skip_stops_at_either_end:
  assumes "pte s = Some p" and "PageTransHuge (page s)" and "\<not> PageHuge (page s)"
  shows "if address s + PAGE_SIZE mm < vm_end (vma s) \<and>
            address s + PAGE_SIZE mm <
              vma_address mm (page s) (vma s) + hpage_nr_pages (page s) * PAGE_SIZE mm
         then page_vma_mapped_walk mm (Suc (Suc (Suc n))) s = walk_from mm (Suc n) L_pte_skip s \<and>
              (\<forall>b s'. blk_pte_skip mm s \<noteq> Return b s')
         else page_vma_mapped_walk mm (Suc (Suc (Suc n))) s =
                Returns (False, not_found (s\<lparr>address := address s + PAGE_SIZE mm\<rparr>))"
proof -
  let ?s1 = "s\<lparr>address := address s + PAGE_SIZE mm\<rparr>"
  have "page_vma_mapped_walk mm (Suc (Suc (Suc n))) s = walk_from mm (Suc (Suc n)) L_next_pte s"
    using assms(1) by (rule walk_resume_leaf)
  also have "\<dots> = walk_from mm (Suc n) L_pte_skip s"
    using assms(2,3) by (rule next_pte_thp)
  finally have path:
    "page_vma_mapped_walk mm (Suc (Suc (Suc n))) s = walk_from mm (Suc n) L_pte_skip s" .
  show ?thesis
  proof (cases "walk_exhausted mm ?s1")
    case True
    then have "walk_from mm (Suc n) L_pte_skip s = Returns (False, not_found ?s1)"
      by (simp add: pte_skip_exhausted)
    with path True show ?thesis by (auto simp: walk_exhausted_def)
  next
    case False
    then have "\<forall>b s'. blk_pte_skip mm s \<noteq> Return b s'"
      by (simp add: pte_skip_continues)
    with path False show ?thesis by (auto simp: walk_exhausted_def)
  qed
qed

text \<open>
  \<open>short_vma_s\<close> reaches the end of its area and the call returns \<open>false\<close>;
  \<open>edge_s\<close> stays below both ends and the scan goes on.
\<close>

theorem leaf_skip_stops_at_either_end_witness:
  "pte short_vma_s = Some 0x10001 \<and> PageTransHuge (page short_vma_s) \<and>
   \<not> PageHuge (page short_vma_s) \<and>
   \<not> address short_vma_s + PAGE_SIZE edge_mm < vm_end (vma short_vma_s) \<and>
   page_vma_mapped_walk edge_mm (Suc (Suc (Suc 0))) short_vma_s =
     Returns (False, not_found (short_vma_s\<lparr>address := address short_vma_s + PAGE_SIZE edge_mm\<rparr>)) \<and>
   pte edge_s = Some 0x3FFFF \<and> PageTransHuge (page edge_s) \<and> \<not> PageHuge (page edge_s) \<and>
   address edge_s + PAGE_SIZE edge_mm < vm_end (vma edge_s) \<and>
   address edge_s + PAGE_SIZE edge_mm <
     vma_address edge_mm (page edge_s) (vma edge_s) + hpage_nr_pages (page edge_s) * PAGE_SIZE edge_mm \<and>
   page_vma_mapped_walk edge_mm (Suc (Suc (Suc 0))) edge_s = walk_from edge_mm (Suc 0) L_pte_skip edge_s \<and>
   (\<forall>b s'. blk_pte_skip edge_mm edge_s \<noteq> Return b s')"
proof -
  have a': "pte edge_s = Some 0x3FFFF" and b': "PageTransHuge (page edge_s)"
    and c': "\<not> PageHuge (page edge_s)"
    and d': "address edge_s + PAGE_SIZE edge_mm < vm_end (vma edge_s)"
    and e': "address edge_s + PAGE_SIZE edge_mm <
       vma_address edge_mm (page edge_s) (vma edge_s) + hpage_nr_pages (page edge_s) * PAGE_SIZE edge_mm"
    by (simp_all add: edge_s_def thp_page_def edge_mm_def demo_mm_def)
  have a: "pte short_vma_s = Some 0x10001" and b: "PageTransHuge (page short_vma_s)"
    and c: "\<not> PageHuge (page short_vma_s)"
    and d: "\<not> address short_vma_s + PAGE_SIZE edge_mm < vm_end (vma short_vma_s)"
    by (simp_all add: short_vma_s_def thp_page_def edge_mm_def demo_mm_def)
  from leaf_skip_stops_at_either_end [OF a b c, of edge_mm 0]
    leaf_skip_stops_at_either_end [OF a' b' c', of edge_mm 0] a b c d a' b' c' d' e'
  show ?thesis
    by (simp del: walk_from.simps)
qed

subsection \<open>A collapsed level-3 entry that is no match\<close>

text \<open>
  C3 as stated does not hold. In \<open>pud_huge_mm\<close> the level-3 entry is a huge mapping
  of another page, before the lock is taken and under it. The claim lets the walk fall
  through to the level-2 resolution; the walker returns \<open>false\<close> from \<open>restart\<close>, and
  the lock it took is released although nothing was split.
\<close>

theorem pud_no_match_counterexample:
  "pud_trans_huge (pud_entry pud_huge_mm False 0) \<and> pud_trans_huge (pud_entry pud_huge_mm True 0) \<and>
   pud_page (pud_entry pud_huge_mm True 0) \<noteq> page_to_pfn (page (fresh_s normal_page 0x1000 0x2000 0x1000)) \<and>
   page_vma_mapped_walk pud_huge_mm 2 (fresh_s normal_page 0x1000 0x2000 0x1000) =
     Returns (False, (fresh_s normal_page 0x1000 0x2000 0x1000)\<lparr>pud := Some 0, ptl := Some 0\<rparr>)"
  by (simp add: page_vma_mapped_walk_def walk_from_numeral blk_defs prim_defs pud_huge_mm_def
      fresh_s_def pvmw_init_def demo_mm_def normal_page_def Let_def)

text \<open>
  C3, amended. When the level-3 entry is seen collapsed before the lock is taken and
  again under the lock, and \<open>MigrationAware\<close> is set or the entry maps another page,
  the walk ends there: the call returns \<open>false\<close> through \<open>not_found\<close>, which releases
  the lock just taken. The walk falls through to the level-2 resolution only when the
  entry is no longer collapsed under the lock (a concurrent split), and the lock is
  released before it does.
\<close>

theorem pud_no_match_terminates:
  assumes "ptl s = None"
    and "pgd_present mm (pgd_offset mm (address s))"
    and "p4d_present mm (p4d_offset mm (pgd_offset mm (address s)) (address s))"
    and "pu = pud_offset mm (p4d_offset mm (pgd_offset mm (address s)) (address s)) (address s)"
    and "pud_trans_huge (pud_entry mm False pu)"
  shows "(pud_trans_huge (pud_entry mm True pu) \<and>
          (PVMW_MIGRATION \<in> flags s \<or> pud_page (pud_entry mm True pu) \<noteq> page_to_pfn (page s)) \<longrightarrow>
            walk_from mm (Suc n) L_restart s =
              Returns (False, not_found (pud_lock mm pu (s\<lparr>pud := Some pu\<rparr>))) \<and>
            held (not_found (pud_lock mm pu (s\<lparr>pud := Some pu\<rparr>))) = held s) \<and>
         (\<not> pud_trans_huge (pud_entry mm True pu) \<longrightarrow>
            walk_from mm (Suc n) L_restart s = walk_from mm n L_map_pmd (s\<lparr>pud := Some pu\<rparr>))"
proof -
  let ?s2 = "pud_lock mm pu (s\<lparr>pud := Some pu\<rparr>)"
  have h: "held (not_found ?s2) = held s"
    by (simp add: prim_defs)
  have u: "unlock_ptl ?s2 = Some (s\<lparr>pud := Some pu\<rparr>)"
    using assms(1) by (simp add: prim_defs)
  have sel: "ptl ?s2 \<noteq> None" "flags ?s2 = flags s" "page ?s2 = page s"
    by (simp_all add: pud_lock_def spin_lock_def)
  from assms h u sel show ?thesis
    by (simp add: blk_restart_def Let_def)
qed

text \<open>
  In \<open>pud_huge_mm\<close> the entry stays collapsed and the walk ends; in \<open>pud_split_mm\<close> it
  is split under the lock and the walk goes on at level 2, where it finds nothing.
\<close>

theorem pud_no_match_terminates_witness:
  "ptl (fresh_s normal_page 0x1000 0x2000 0x1000) = None \<and>
   pud_trans_huge (pud_entry pud_huge_mm False 0) \<and> pud_trans_huge (pud_entry pud_huge_mm True 0) \<and>
   pud_page (pud_entry pud_huge_mm True 0) \<noteq> page_to_pfn (page (fresh_s normal_page 0x1000 0x2000 0x1000)) \<and>
   walk_from pud_huge_mm (Suc 0) L_restart (fresh_s normal_page 0x1000 0x2000 0x1000) =
     Returns (False, (fresh_s normal_page 0x1000 0x2000 0x1000)\<lparr>pud := Some 0, ptl := Some 0\<rparr>) \<and>
   pud_trans_huge (pud_entry pud_split_mm False 0) \<and> \<not> pud_trans_huge (pud_entry pud_split_mm True 0) \<and>
   walk_from pud_split_mm (Suc 2) L_restart (fresh_s normal_page 0x1000 0x2000 0x1000) =
     walk_from pud_split_mm 2 L_map_pmd ((fresh_s normal_page 0x1000 0x2000 0x1000)\<lparr>pud := Some 0\<rparr>) \<and>
   walk_from pud_split_mm 2 L_map_pmd ((fresh_s normal_page 0x1000 0x2000 0x1000)\<lparr>pud := Some 0\<rparr>) =
     Returns (False, (fresh_s normal_page 0x1000 0x2000 0x1000)\<lparr>pud := Some 0, pmd := Some 0\<rparr>)"
proof -
  let ?s = "fresh_s normal_page 0x1000 0x2000 0x1000"
  have a: "ptl ?s = None" "address ?s = 0x1000" "PVMW_MIGRATION \<notin> flags ?s"
    "page_to_pfn (page ?s) = 0x5000" "held ?s = []" "pte ?s = None"
    by (simp_all add: fresh_s_def pvmw_init_def normal_page_def)
  have b: "pgd_present pud_huge_mm (pgd_offset pud_huge_mm (address ?s))"
    "p4d_present pud_huge_mm (p4d_offset pud_huge_mm (pgd_offset pud_huge_mm (address ?s)) (address ?s))"
    "0 = pud_offset pud_huge_mm (p4d_offset pud_huge_mm (pgd_offset pud_huge_mm (address ?s)) (address ?s)) (address ?s)"
    "pud_trans_huge (pud_entry pud_huge_mm False 0)" "pud_trans_huge (pud_entry pud_huge_mm True 0)"
    "pud_page (pud_entry pud_huge_mm True 0) = 0x9000" "pud_lockptr pud_huge_mm 0 = 0"
    by (simp_all add: a pud_huge_mm_def demo_mm_def)
  have c: "pgd_present pud_split_mm (pgd_offset pud_split_mm (address ?s))"
    "p4d_present pud_split_mm (p4d_offset pud_split_mm (pgd_offset pud_split_mm (address ?s)) (address ?s))"
    "0 = pud_offset pud_split_mm (p4d_offset pud_split_mm (pgd_offset pud_split_mm (address ?s)) (address ?s)) (address ?s)"
    "pud_trans_huge (pud_entry pud_split_mm False 0)" "\<not> pud_trans_huge (pud_entry pud_split_mm True 0)"
    by (simp_all add: a pud_split_mm_def demo_mm_def)
  have nf: "not_found (pud_lock pud_huge_mm 0 (?s\<lparr>pud := Some 0\<rparr>)) = ?s\<lparr>pud := Some 0, ptl := Some 0\<rparr>"
    by (simp add: prim_defs b(7) fresh_s_def pvmw_init_def)
  have run: "walk_from pud_split_mm 2 L_map_pmd (?s\<lparr>pud := Some 0\<rparr>) =
     Returns (False, ?s\<lparr>pud := Some 0, pmd := Some 0\<rparr>)"
    by (simp add: walk_from_numeral blk_defs prim_defs pud_split_mm_def fresh_s_def pvmw_init_def
        demo_mm_def normal_page_def Let_def)
  from pud_no_match_terminates [OF a(1) b(1,2,3,4), of 0]
    pud_no_match_terminates [OF a(1) c(1,2,3,4), of 2] a b c nf run
  show ?thesis by (simp del: walk_from.simps)
qed

subsection \<open>Migration placeholders at the leaf level\<close>

lemma pfn_is_match_exact:
  "\<not> PageTransCompound pg \<or> PageHuge pg \<Longrightarrow> pfn_is_match pg f = (page_to_pfn pg = f)"
  by (auto simp: pfn_is_match_def)

lemma pfn_is_match_range:
  assumes "PageTransCompound pg" and "\<not> PageHuge pg"
  shows "pfn_is_match pg f = frame_in_range pg f"
proof (cases "page_to_pfn pg \<le> f")
  case True
  then have "unat (f - page_to_pfn pg) = unat f - unat (page_to_pfn pg)"
    by (rule unat_sub)
  with True assms show ?thesis
    by (auto simp: pfn_is_match_def frame_in_range_def word_le_nat_alt word_less_nat_alt)
next
  case False
  with assms show ?thesis
    by (auto simp: pfn_is_match_def frame_in_range_def word_le_nat_alt)
qed

text \<open>
  C4 as stated does not hold for a huge-page-backed target. The frame range of
  \<open>hugetlb_page\<close> has 512 frames and the placeholder's frame \<open>0x8001\<close> lies inside it,
  yet \<open>check_pte\<close> reports no match with \<open>MigrationAware\<close> set: for a normal page and
  for a huge-page-backed page \<open>pfn_is_match\<close> asks for the page's own frame.
\<close>

theorem check_pte_hugetlb_placeholder_counterexample:
  "pte_entry mig_mm True 8 = PTE_swap (Migration 0x8001) \<and>
   frame_in_range hugetlb_page 0x8001 \<and>
   check_pte mig_mm (mig_s hugetlb_page {PVMW_MIGRATION} None (Some 8) 3) = Some False"
  by (simp add: check_pte_def is_swap_pte_def pfn_is_match_def frame_in_range_def mig_mm_def
      demo_mm_def mig_s_def hugetlb_page_def)

text \<open>
  C4, amended. For a leaf entry that is a migration placeholder whose frame lies inside
  the target's frame range and, when the target is not a transparent compound page (a
  normal page or a huge-page-backed page), is the target's own frame: \<open>check_pte\<close>, and
  with it the head of the leaf loop, reports a match when \<open>MigrationAware\<close> is set, and
  no match for the same entry when it is not set.
\<close>

theorem check_pte_migration_placeholder:
  assumes "pte s = Some p"
    and "pte_entry mm (ptl s \<noteq> None) p = PTE_swap (Migration f)"
    and "frame_in_range (page s) f"
    and "\<not> PageTransCompound (page s) \<or> PageHuge (page s) \<longrightarrow> f = page_to_pfn (page s)"
  shows "(PVMW_MIGRATION \<in> flags s \<longrightarrow>
            check_pte mm s = Some True \<and> blk_check_pte mm s = Return True s) \<and>
         (PVMW_MIGRATION \<notin> flags s \<longrightarrow>
            check_pte mm s = Some False \<and> blk_check_pte mm s = Goto L_next_pte s)"
proof -
  have m: "pfn_is_match (page s) f"
  proof (cases "\<not> PageTransCompound (page s) \<or> PageHuge (page s)")
    case True
    with assms(4) show ?thesis by (simp add: pfn_is_match_exact)
  next
    case False
    with assms(3) show ?thesis by (simp add: pfn_is_match_range)
  qed
  from assms(1,2) m have "PVMW_MIGRATION \<in> flags s \<Longrightarrow> check_pte mm s = Some True"
    by (simp add: check_pte_def is_swap_pte_def)
  moreover from assms(1,2) have "PVMW_MIGRATION \<notin> flags s \<Longrightarrow> check_pte mm s = Some False"
    by (simp add: check_pte_def is_swap_pte_def)
  ultimately show ?thesis by (simp add: blk_check_pte_def)
qed

text \<open>The placeholder of the fourth frame of the transparent huge page, with and without the flag.\<close>

theorem check_pte_migration_placeholder_witness:
  "pte_entry mig_mm True 7 = PTE_swap (Migration 0x5003) \<and> frame_in_range thp_page 0x5003 \<and>
   PageTransCompound thp_page \<and> \<not> PageHuge thp_page \<and>
   check_pte mig_mm (mig_s thp_page {PVMW_MIGRATION} None (Some 7) 2) = Some True \<and>
   blk_check_pte mig_mm (mig_s thp_page {PVMW_MIGRATION} None (Some 7) 2) =
     Return True (mig_s thp_page {PVMW_MIGRATION} None (Some 7) 2) \<and>
   check_pte mig_mm (mig_s thp_page {} None (Some 7) 2) = Some False \<and>
   blk_check_pte mig_mm (mig_s thp_page {} None (Some 7) 2) =
     Goto L_next_pte (mig_s thp_page {} None (Some 7) 2)"
proof -
  have a: "pte (mig_s thp_page fl None (Some 7) 2) = Some 7"
    and b: "pte_entry mig_mm (ptl (mig_s thp_page fl None (Some 7) 2) \<noteq> None) 7 =
            PTE_swap (Migration 0x5003)"
    and c: "frame_in_range (page (mig_s thp_page fl None (Some 7) 2)) 0x5003"
    and d: "\<not> PageTransCompound (page (mig_s thp_page fl None (Some 7) 2)) \<or>
            PageHuge (page (mig_s thp_page fl None (Some 7) 2)) \<longrightarrow>
            0x5003 = page_to_pfn (page (mig_s thp_page fl None (Some 7) 2))" for fl
    by (simp_all add: mig_s_def mig_mm_def demo_mm_def thp_page_def frame_in_range_def)
  have e: "pte_entry mig_mm True 7 = PTE_swap (Migration 0x5003)" "frame_in_range thp_page 0x5003"
    "PageTransCompound thp_page" "\<not> PageHuge thp_page"
    "flags (mig_s thp_page fl None (Some 7) 2) = fl" for fl
    by (simp_all add: mig_s_def mig_mm_def demo_mm_def thp_page_def frame_in_range_def)
  from check_pte_migration_placeholder [OF a b c d, of "{PVMW_MIGRATION}"]
    check_pte_migration_placeholder [OF a b c d, of "{}"] e
  show ?thesis by simp
qed

subsection \<open>The call after a huge match\<close>

lemma hugetlb_true_sets_pte:
  assumes "PageHuge (page s0)" and "pud s0 = None" and "pmd s0 = None" and "pte s0 = None"
    and "page_vma_mapped_walk mm k s0 = Returns (True, s)"
  shows "PageHuge (page s) \<and> pte s \<noteq> None"
proof (cases k)
  case 0
  with assms(5) show ?thesis by (simp add: page_vma_mapped_walk_def)
next
  case (Suc k')
  with assms show ?thesis
    by (auto simp: page_vma_mapped_walk_def blk_entry_def spin_lock_def Let_def
        split: option.splits bool.splits)
qed

lemma resume_hugetlb_false:
  "PageHuge (page s) \<Longrightarrow> pte s \<noteq> None \<Longrightarrow>
   page_vma_mapped_walk mm (Suc (Suc n)) s = Returns (False, not_found s)"
  by (auto simp: page_vma_mapped_walk_def blk_entry_def blk_next_pte_def)

lemma resume_pud_match_false:
  "pte s = None \<Longrightarrow> pmd s = None \<Longrightarrow> pud s \<noteq> None \<Longrightarrow>
   page_vma_mapped_walk mm (Suc n) s = Returns (False, not_found s)"
  by (auto simp: page_vma_mapped_walk_def blk_entry_def)

lemma resume_pmd_match_false:
  "pte s = None \<Longrightarrow> pmd s \<noteq> None \<Longrightarrow>
   \<not> (PageTransHuge (page s) \<and> compound_order (page s) = HPAGE_PUD_ORDER mm) \<Longrightarrow>
   page_vma_mapped_walk mm (Suc (Suc n)) s = Returns (False, not_found s)"
  by (auto simp: page_vma_mapped_walk_def blk_entry_def blk_next_pmd_def)

text \<open>
  C5 as stated does not hold for a level-2 match of a target of level-3 size that is
  mapped by level-2 entries. In \<open>pud_thp_mm\<close> the first call returns \<open>true\<close> on the
  level-2 entry 512, with the leaf handle null and the level-2 handle set; the call
  after it returns \<open>true\<close> again, on the entry 513.
\<close>

theorem pmd_mapped_pud_thp_counterexample:
  "pte pud_thp_s1 = None \<and> pmd pud_thp_s1 = Some 512 \<and> pud pud_thp_s1 = Some 1 \<and>
   hpage_nr_pages (page pud_thp_s1) = 0x40000 \<and>
   page_vma_mapped_walk pud_thp_mm 4 (fresh_s pud_thp_page 0x40000000 0x80000000 0x40000000) =
     Returns (True, pud_thp_s1) \<and>
   page_vma_mapped_walk pud_thp_mm 4 pud_thp_s1 =
     Returns (True, pud_thp_s1\<lparr>address := 0x40200000, pmd := Some 513\<rparr>)"
  by (simp add: page_vma_mapped_walk_def walk_from_numeral blk_defs prim_defs pud_thp_mm_def
      pud_thp_s1_def fresh_s_def pvmw_init_def demo_mm_def pud_thp_page_def Let_def)

text \<open>
  C5, amended. After a call has returned \<open>true\<close> for a huge-page-backed target that
  was walked from a fresh cursor, or with a level-3 match (only the level-3 handle set),
  or with a level-2 match (leaf handle null, level-2 handle set) of a target that is not
  a transparent huge page of level-3 order, the call that follows returns \<open>false\<close>,
  whatever the frame count of the target.
\<close>

theorem huge_match_then_false:
  assumes "page_vma_mapped_walk mm k s0 = Returns (True, s)"
    and "(PageHuge (page s0) \<and> pud s0 = None \<and> pmd s0 = None \<and> pte s0 = None) \<or>
         (pte s = None \<and> pmd s = None \<and> pud s \<noteq> None) \<or>
         (pte s = None \<and> pmd s \<noteq> None \<and>
          \<not> (PageTransHuge (page s) \<and> compound_order (page s) = HPAGE_PUD_ORDER mm))"
  shows "page_vma_mapped_walk mm (Suc (Suc n)) s = Returns (False, not_found s)"
  using assms(2)
proof (elim disjE)
  assume "PageHuge (page s0) \<and> pud s0 = None \<and> pmd s0 = None \<and> pte s0 = None"
  with assms(1) have "PageHuge (page s) \<and> pte s \<noteq> None"
    by (intro hugetlb_true_sets_pte [of s0 mm k s]) simp_all
  then show ?thesis by (intro resume_hugetlb_false) simp_all
next
  assume "pte s = None \<and> pmd s = None \<and> pud s \<noteq> None"
  then have "page_vma_mapped_walk mm (Suc (Suc n)) s = Returns (False, not_found s)"
    by (intro resume_pud_match_false) simp_all
  then show ?thesis .
next
  assume "pte s = None \<and> pmd s \<noteq> None \<and>
          \<not> (PageTransHuge (page s) \<and> compound_order (page s) = HPAGE_PUD_ORDER mm)"
  then show ?thesis by (intro resume_pmd_match_false) simp_all
qed

text \<open>
  In \<open>hugetlb_mm\<close>: the huge-page-backed page is found once, and the transparent huge
  page of 512 frames is found once at level 2.
\<close>

theorem huge_match_then_false_witness:
  "PageHuge (page (fresh_s hugetlb_page 0 0x40000000 0x7000)) \<and>
   page_vma_mapped_walk hugetlb_mm 1 (fresh_s hugetlb_page 0 0x40000000 0x7000) =
     Returns (True, (fresh_s hugetlb_page 0 0x40000000 0x7000)\<lparr>pte := Some 9, ptl := Some 3, held := [3]\<rparr>) \<and>
   page_vma_mapped_walk hugetlb_mm (Suc (Suc 0))
       ((fresh_s hugetlb_page 0 0x40000000 0x7000)\<lparr>pte := Some 9, ptl := Some 3, held := [3]\<rparr>) =
     Returns (False, (fresh_s hugetlb_page 0 0x40000000 0x7000)\<lparr>pte := Some 9, ptl := Some 3\<rparr>) \<and>
   page_vma_mapped_walk hugetlb_mm 4 (fresh_s thp_page 0 0x40000000 0x7000) =
     Returns (True, (fresh_s thp_page 0 0x40000000 0x7000)
                      \<lparr>pud := Some 0, pmd := Some 0, ptl := Some 1, held := [1]\<rparr>) \<and>
   compound_order thp_page \<noteq> HPAGE_PUD_ORDER hugetlb_mm \<and>
   page_vma_mapped_walk hugetlb_mm (Suc (Suc 0))
       ((fresh_s thp_page 0 0x40000000 0x7000)\<lparr>pud := Some 0, pmd := Some 0, ptl := Some 1, held := [1]\<rparr>) =
     Returns (False, (fresh_s thp_page 0 0x40000000 0x7000)\<lparr>pud := Some 0, pmd := Some 0, ptl := Some 1\<rparr>)"
proof -
  let ?h0 = "fresh_s hugetlb_page 0 0x40000000 0x7000"
  let ?h1 = "?h0\<lparr>pte := Some 9, ptl := Some 3, held := [3]\<rparr>"
  let ?t0 = "fresh_s thp_page 0 0x40000000 0x7000"
  let ?t1 = "?t0\<lparr>pud := Some 0, pmd := Some 0, ptl := Some 1, held := [1]\<rparr>"
  have r1: "page_vma_mapped_walk hugetlb_mm 1 ?h0 = Returns (True, ?h1)"
    by (simp add: page_vma_mapped_walk_def blk_defs prim_defs hugetlb_mm_def fresh_s_def
        pvmw_init_def demo_mm_def hugetlb_page_def Let_def)
  have r2: "page_vma_mapped_walk hugetlb_mm 4 ?t0 = Returns (True, ?t1)"
    by (simp add: page_vma_mapped_walk_def walk_from_numeral blk_defs prim_defs hugetlb_mm_def
        fresh_s_def pvmw_init_def demo_mm_def thp_page_def Let_def)
  have c1: "PageHuge (page ?h0) \<and> pud ?h0 = None \<and> pmd ?h0 = None \<and> pte ?h0 = None"
    by (simp add: fresh_s_def pvmw_init_def hugetlb_page_def)
  have c2: "pte ?t1 = None \<and> pmd ?t1 \<noteq> None \<and>
      \<not> (PageTransHuge (page ?t1) \<and> compound_order (page ?t1) = HPAGE_PUD_ORDER hugetlb_mm)"
    and c3: "compound_order thp_page \<noteq> HPAGE_PUD_ORDER hugetlb_mm"
    by (simp_all add: fresh_s_def pvmw_init_def thp_page_def hugetlb_mm_def demo_mm_def)
  have n1: "not_found ?h1 = ?h0\<lparr>pte := Some 9, ptl := Some 3\<rparr>"
    by (simp add: prim_defs fresh_s_def pvmw_init_def)
  have n2: "not_found ?t1 = ?t0\<lparr>pud := Some 0, pmd := Some 0, ptl := Some 1\<rparr>"
    by (simp add: prim_defs fresh_s_def pvmw_init_def)
  have f1: "page_vma_mapped_walk hugetlb_mm (Suc (Suc 0)) ?h1 = Returns (False, not_found ?h1)"
    using huge_match_then_false [OF r1, of 0] c1 by blast
  have f2: "page_vma_mapped_walk hugetlb_mm (Suc (Suc 0)) ?t1 = Returns (False, not_found ?t1)"
    using huge_match_then_false [OF r2, of 0] c2 by blast
  from r1 r2 c1 c3 f1 f2 n1 n2 show ?thesis by (simp del: walk_from.simps)
qed

subsection \<open>Crossing a table boundary\<close>

text \<open>
  What a turn of a skip loop does at a table boundary. When the leaf skip loop brings
  the address to a multiple of \<open>PMD_SIZE\<close>, the call ends with \<open>false\<close> if the walk
  is exhausted there, and otherwise the leaf table is unmapped, the lock (if one is held)
  released, and the walk jumps to \<open>restart\<close>. The level-2 skip loop does the same at a
  multiple of \<open>PUD_SIZE\<close>. Only the mapping is given up: the field \<open>pte\<close> keeps its
  old value.
\<close>

lemma table_boundary_forces_restart:
  "(let s1 = s\<lparr>address := address s + PAGE_SIZE mm\<rparr>; s' = unlock_ptl_if_set (pte_unmap s1)
    in address s1 mod PMD_SIZE mm = 0 \<longrightarrow>
         (if walk_exhausted mm s1 then blk_pte_skip mm s = Return False (not_found s1)
          else blk_pte_skip mm s = Goto L_restart s' \<and>
               walk_from mm (Suc n) L_pte_skip s = walk_from mm n L_restart s' \<and>
               address s' = address s + PAGE_SIZE mm \<and> ptl s' = None \<and> \<not> pte_mapped s' \<and>
               (lock_consistent s \<longrightarrow> held s' = []) \<and>
               (\<not> pgd_present mm (pgd_offset mm (address s + PAGE_SIZE mm)) \<longrightarrow>
                  walk_from mm (Suc (Suc n)) L_pte_skip s = Returns (False, s')))) \<and>
   (let s1 = s\<lparr>address := address s + HPAGE_PMD_SIZE mm\<rparr>; s' = unlock_ptl_if_set s1
    in address s1 mod PUD_SIZE mm = 0 \<longrightarrow>
         (if walk_exhausted mm s1 then blk_pmd_skip mm s = Return False (not_found s1)
          else blk_pmd_skip mm s = Goto L_restart s' \<and>
               walk_from mm (Suc n) L_pmd_skip s = walk_from mm n L_restart s' \<and>
               address s' = address s + HPAGE_PMD_SIZE mm \<and> ptl s' = None \<and>
               (lock_consistent s \<longrightarrow> held s' = []) \<and>
               (\<not> pgd_present mm (pgd_offset mm (address s + HPAGE_PMD_SIZE mm)) \<longrightarrow>
                  walk_from mm (Suc (Suc n)) L_pmd_skip s = Returns (False, s'))))"
proof -
  let ?a = "s\<lparr>address := address s + PAGE_SIZE mm\<rparr>"
  let ?a' = "unlock_ptl_if_set (pte_unmap ?a)"
  let ?b = "s\<lparr>address := address s + HPAGE_PMD_SIZE mm\<rparr>"
  let ?b' = "unlock_ptl_if_set ?b"
  have lc: "lock_consistent s \<Longrightarrow> lock_consistent (pte_unmap ?a)" "lock_consistent s \<Longrightarrow> lock_consistent ?b"
    by (simp_all add: lock_consistent_def pte_unmap_def)
  have leaf: "blk_pte_skip mm s = Goto L_restart ?a' \<and>
      walk_from mm (Suc n) L_pte_skip s = walk_from mm n L_restart ?a' \<and>
      address ?a' = address s + PAGE_SIZE mm \<and> ptl ?a' = None \<and> \<not> pte_mapped ?a' \<and>
      (lock_consistent s \<longrightarrow> held ?a' = []) \<and>
      (\<not> pgd_present mm (pgd_offset mm (address s + PAGE_SIZE mm)) \<longrightarrow>
         walk_from mm (Suc (Suc n)) L_pte_skip s = Returns (False, ?a'))"
    if "address ?a mod PMD_SIZE mm = 0" "\<not> walk_exhausted mm ?a"
  proof -
    from that have g: "blk_pte_skip mm s = Goto L_restart ?a'"
      by (simp add: pte_skip_boundary)
    have ad: "address ?a' = address s + PAGE_SIZE mm"
      by (simp add: unlock_ptl_if_set_facts pte_unmap_def)
    have "\<not> pgd_present mm (pgd_offset mm (address s + PAGE_SIZE mm)) \<Longrightarrow>
          blk_restart mm ?a' = Return False ?a'"
      using restart_top_level_absent [of mm ?a'] ad by simp
    with g ad lc(1) show ?thesis
      by (simp add: unlock_ptl_if_set_facts pte_unmap_def)
  qed
  have mid: "blk_pmd_skip mm s = Goto L_restart ?b' \<and>
      walk_from mm (Suc n) L_pmd_skip s = walk_from mm n L_restart ?b' \<and>
      address ?b' = address s + HPAGE_PMD_SIZE mm \<and> ptl ?b' = None \<and>
      (lock_consistent s \<longrightarrow> held ?b' = []) \<and>
      (\<not> pgd_present mm (pgd_offset mm (address s + HPAGE_PMD_SIZE mm)) \<longrightarrow>
         walk_from mm (Suc (Suc n)) L_pmd_skip s = Returns (False, ?b'))"
    if "address ?b mod PUD_SIZE mm = 0" "\<not> walk_exhausted mm ?b"
  proof -
    from that have g: "blk_pmd_skip mm s = Goto L_restart ?b'"
      by (simp add: pmd_skip_boundary)
    have ad: "address ?b' = address s + HPAGE_PMD_SIZE mm"
      by (simp add: unlock_ptl_if_set_facts)
    have "\<not> pgd_present mm (pgd_offset mm (address s + HPAGE_PMD_SIZE mm)) \<Longrightarrow>
          blk_restart mm ?b' = Return False ?b'"
      using restart_top_level_absent [of mm ?b'] ad by simp
    with g ad lc(2) show ?thesis
      by (simp add: unlock_ptl_if_set_facts)
  qed
  show ?thesis
    unfolding Let_def using leaf mid pte_skip_exhausted [of mm s] pmd_skip_exhausted [of mm s]
    by (simp del: walk_from.simps)
qed

text \<open>
  \<open>edge_s\<close> steps from \<open>0x3FFFF000\<close> to 1 GiB, \<open>edge_pmd_s\<close> from \<open>0x7FE00000\<close> to
  2 GiB; both give up their lock and restart.
\<close>

lemma table_boundary_forces_restart_example:
  "(address edge_s + PAGE_SIZE edge_mm) mod PMD_SIZE edge_mm = 0 \<and>
   \<not> walk_exhausted edge_mm (edge_s\<lparr>address := address edge_s + PAGE_SIZE edge_mm\<rparr>) \<and>
   lock_consistent edge_s \<and> held edge_s = [2] \<and> pte_mapped edge_s \<and>
   blk_pte_skip edge_mm edge_s =
     Goto L_restart (edge_s\<lparr>address := 0x40000000, ptl := None, held := [], pte_mapped := False\<rparr>) \<and>
   (address edge_pmd_s + HPAGE_PMD_SIZE edge_mm) mod PUD_SIZE edge_mm = 0 \<and>
   \<not> walk_exhausted edge_mm (edge_pmd_s\<lparr>address := address edge_pmd_s + HPAGE_PMD_SIZE edge_mm\<rparr>) \<and>
   lock_consistent edge_pmd_s \<and> held edge_pmd_s = [1] \<and>
   blk_pmd_skip edge_mm edge_pmd_s =
     Goto L_restart (edge_pmd_s\<lparr>address := 0x80000000, ptl := None, held := []\<rparr>)"
proof -
  have h1: "(address edge_s + PAGE_SIZE edge_mm) mod PMD_SIZE edge_mm = 0"
    "\<not> walk_exhausted edge_mm (edge_s\<lparr>address := address edge_s + PAGE_SIZE edge_mm\<rparr>)"
    "lock_consistent edge_s" "held edge_s = [2]" "pte_mapped edge_s"
    by (simp_all add: edge_s_def edge_mm_def demo_mm_def thp_page_def walk_exhausted_def
        lock_consistent_def)
  have h2: "(address edge_pmd_s + HPAGE_PMD_SIZE edge_mm) mod PUD_SIZE edge_mm = 0"
    "\<not> walk_exhausted edge_mm (edge_pmd_s\<lparr>address := address edge_pmd_s + HPAGE_PMD_SIZE edge_mm\<rparr>)"
    "lock_consistent edge_pmd_s" "held edge_pmd_s = [1]"
    by (simp_all add: edge_pmd_s_def edge_mm_def demo_mm_def pud_thp_page_def walk_exhausted_def
        lock_consistent_def)
  have e1: "unlock_ptl_if_set (pte_unmap (edge_s\<lparr>address := address edge_s + PAGE_SIZE edge_mm\<rparr>)) =
      edge_s\<lparr>address := 0x40000000, ptl := None, held := [], pte_mapped := False\<rparr>"
    by (simp add: edge_s_def edge_mm_def demo_mm_def prim_defs)
  have e2: "unlock_ptl_if_set (edge_pmd_s\<lparr>address := address edge_pmd_s + HPAGE_PMD_SIZE edge_mm\<rparr>) =
      edge_pmd_s\<lparr>address := 0x80000000, ptl := None, held := []\<rparr>"
    by (simp add: edge_pmd_s_def edge_mm_def demo_mm_def prim_defs)
  from table_boundary_forces_restart [of edge_s edge_mm 0] h1 e1
  have r1: "blk_pte_skip edge_mm edge_s =
     Goto L_restart (edge_s\<lparr>address := 0x40000000, ptl := None, held := [], pte_mapped := False\<rparr>)"
    by (simp add: Let_def del: walk_from.simps)
  from table_boundary_forces_restart [of edge_pmd_s edge_mm 0] h2 e2
  have r2: "blk_pmd_skip edge_mm edge_pmd_s =
     Goto L_restart (edge_pmd_s\<lparr>address := 0x80000000, ptl := None, held := []\<rparr>)"
    by (simp add: Let_def del: walk_from.simps)
  from h1 h2 r1 r2 show ?thesis by simp
qed

text \<open>The three calls on \<open>split_mm\<close>.\<close>

lemma split_first_call:
  "page_vma_mapped_walk split_mm 6 (fresh_s pud_thp_page 0x40000000 0x80000000 0x401FF000) =
     Returns (True, split_s)"
  by (simp add: page_vma_mapped_walk_def walk_from_numeral blk_defs prim_defs split_mm_def
      split_s_def fresh_s_def pvmw_init_def demo_mm_def pud_thp_page_def Let_def)

lemma split_second_call:
  "page_vma_mapped_walk split_mm 6 split_s = Returns (True, split_s2)"
  by (simp add: page_vma_mapped_walk_def walk_from_numeral blk_defs prim_defs split_mm_def
      split_s_def split_s2_def fresh_s_def pvmw_init_def demo_mm_def pud_thp_page_def Let_def)

lemma split_third_call:
  "blk_entry split_mm split_s2 = Goto L_next_pte split_s2"
  "blk_next_pte split_mm split_s2 = Goto L_pte_skip split_s2"
  "blk_pte_skip split_mm split_s2 =
     Goto L_pte_skip (split_s2\<lparr>address := 0x40201000, pte := Some 0x40200\<rparr>)"
  by (simp_all add: blk_defs prim_defs split_mm_def split_s_def split_s2_def fresh_s_def
      pvmw_init_def demo_mm_def pud_thp_page_def Let_def)

text \<open>
  C6. The claim: the walker never goes on with a leaf-level scan across a leaf-table
  boundary while it keeps the old leaf handle; at the boundary the handle is given up and
  the resolution starts again from the top. The code breaks it. Line 307 unmaps the leaf
  table and leaves \<open>pvmw->pte\<close> as it was. On \<open>split_mm\<close> the first call reports the
  last entry of the leaf table. The second call steps to \<open>0x40200000\<close>, a multiple of
  \<open>PMD_SIZE\<close>, unmaps, unlocks and restarts, and returns \<open>true\<close> on the huge level-2
  entry 513 with the leaf handle of the old table still set, where the comment of the
  function promises a null \<open>pte\<close> for a page mapped at level 2. The third call
  therefore resumes at \<open>next_pte\<close>: it steps to \<open>0x40201000\<close>, moves the old handle on
  by \<open>pte++\<close>, reads through it with no leaf table mapped and the level-2 lock held,
  and goes on scanning.
\<close>

theorem stale_leaf_handle_after_boundary:
  "page_vma_mapped_walk split_mm 6 (fresh_s pud_thp_page 0x40000000 0x80000000 0x401FF000) =
     Returns (True, split_s) \<and>
   pte split_s = Some 0x401FF \<and> pte_mapped split_s \<and>
   page_vma_mapped_walk split_mm 6 split_s = Returns (True, split_s2) \<and>
   address split_s2 = 0x40200000 \<and> address split_s2 mod PMD_SIZE split_mm = 0 \<and>
   pmd split_s2 = Some 513 \<and> pmd_entry split_mm True 513 = PMD_trans_huge 0x40200 \<and>
   ptl split_s2 = Some (pmd_lockptr split_mm 513) \<and>
   pte split_s2 = Some 0x401FF \<and> \<not> pte_mapped split_s2 \<and>
   walk_from split_mm 3 L_entry split_s2 =
     walk_from split_mm 0 L_pte_skip (split_s2\<lparr>address := 0x40201000, pte := Some 0x40200\<rparr>) \<and>
   blk_entry split_mm split_s2 = Goto L_next_pte split_s2 \<and>
   blk_next_pte split_mm split_s2 = Goto L_pte_skip split_s2 \<and>
   blk_pte_skip split_mm split_s2 =
     Goto L_pte_skip (split_s2\<lparr>address := 0x40201000, pte := Some 0x40200\<rparr>)"
proof -
  have sel: "pte split_s = Some 0x401FF" "pte_mapped split_s" "address split_s2 = 0x40200000"
    "address split_s2 mod PMD_SIZE split_mm = 0" "pmd split_s2 = Some 513"
    "pmd_entry split_mm True 513 = PMD_trans_huge 0x40200"
    "ptl split_s2 = Some (pmd_lockptr split_mm 513)" "pte split_s2 = Some 0x401FF"
    "\<not> pte_mapped split_s2"
    by (simp_all add: split_s_def split_s2_def split_mm_def demo_mm_def)
  have run: "walk_from split_mm 3 L_entry split_s2 =
     walk_from split_mm 0 L_pte_skip (split_s2\<lparr>address := 0x40201000, pte := Some 0x40200\<rparr>)"
    by (simp add: walk_from_numeral split_third_call)
  from split_first_call split_second_call split_third_call sel run show ?thesis
    by (simp del: walk_from.simps)
qed

text \<open>The second call and the cursor it leaves, taken from the theorem.\<close>

theorem stale_leaf_handle_after_boundary_witness:
  "page_vma_mapped_walk split_mm 6 split_s = Returns (True, split_s2) \<and>
   pmd split_s2 = Some 513 \<and> pte split_s2 = Some 0x401FF \<and> \<not> pte_mapped split_s2 \<and>
   blk_pte_skip split_mm split_s2 =
     Goto L_pte_skip (split_s2\<lparr>address := 0x40201000, pte := Some 0x40200\<rparr>)"
  using stale_leaf_handle_after_boundary by (simp del: walk_from.simps)

subsection \<open>A huge-page-backed target without an entry\<close>

text \<open>
  C7. For a huge-page-backed target on a fresh cursor, when the huge-page lookup finds
  no entry the call returns \<open>false\<close> by the plain \<open>return\<close> of line 213: the cursor is
  handed back as it came, no lock is taken, and \<open>not_found\<close> is not run (it would have
  released a lock recorded in \<open>ptl\<close>).
\<close>

theorem hugetlb_missing_entry_plain_return:
  "PageHuge (page s) \<Longrightarrow> pud s = None \<Longrightarrow> pmd s = None \<Longrightarrow> pte s = None \<Longrightarrow>
   huge_pte_offset mm (address s) (page_size mm (page s)) = None \<Longrightarrow>
   page_vma_mapped_walk mm (Suc n) s = Returns (False, s) \<and>
   held (not_found s) = (case ptl s of None \<Rightarrow> held s | Some l \<Rightarrow> remove1 l (held s))"
  by (simp add: page_vma_mapped_walk_def blk_entry_def prim_defs split: option.splits)

text \<open>
  A cursor that records and holds lock 3 shows the difference: the call leaves the lock
  held, \<open>not_found\<close> would have released it.
\<close>

theorem hugetlb_missing_entry_plain_return_witness:
  "PageHuge (page (mig_s hugetlb_page {} None None 3)) \<and>
   huge_pte_offset edge_mm (address (mig_s hugetlb_page {} None None 3))
     (page_size edge_mm (page (mig_s hugetlb_page {} None None 3))) = None \<and>
   page_vma_mapped_walk edge_mm (Suc 0) (mig_s hugetlb_page {} None None 3) =
     Returns (False, mig_s hugetlb_page {} None None 3) \<and>
   held (mig_s hugetlb_page {} None None 3) = [3] \<and>
   held (not_found (mig_s hugetlb_page {} None None 3)) = []"
proof -
  have h: "PageHuge (page (mig_s hugetlb_page {} None None 3))"
    "pud (mig_s hugetlb_page {} None None 3) = None"
    "pmd (mig_s hugetlb_page {} None None 3) = None"
    "pte (mig_s hugetlb_page {} None None 3) = None"
    "huge_pte_offset edge_mm (address (mig_s hugetlb_page {} None None 3))
       (page_size edge_mm (page (mig_s hugetlb_page {} None None 3))) = None"
    by (simp_all add: mig_s_def hugetlb_page_def edge_mm_def demo_mm_def)
  have k: "held (mig_s hugetlb_page {} None None 3) = [3]"
    "ptl (mig_s hugetlb_page {} None None 3) = Some 3"
    by (simp_all add: mig_s_def)
  from hugetlb_missing_entry_plain_return [OF h, of 0] h k show ?thesis
    by (simp del: walk_from.simps)
qed

subsection \<open>The containment check\<close>

lemma span_end_unat:
  assumes "hpage_nr_pages pg \<noteq> 0" and "span_last mm pg v < 2 ^ 64"
  shows "unat (vma_address mm pg v + PAGE_SIZE mm * (hpage_nr_pages pg - 1)) = span_last mm pg v"
proof -
  have n: "unat (hpage_nr_pages pg - 1) = unat (hpage_nr_pages pg) - 1"
    using assms(1) by (rule unat_minus_one)
  from assms(2) have "unat (PAGE_SIZE mm) * unat (hpage_nr_pages pg - 1) < 2 ^ LENGTH(64)"
    by (simp add: span_last_def n)
  then have m: "unat (PAGE_SIZE mm * (hpage_nr_pages pg - 1)) =
                unat (PAGE_SIZE mm) * (unat (hpage_nr_pages pg) - 1)"
    by (simp add: unat_mult_lem [THEN iffD1] n)
  from assms(2) have "unat (vma_address mm pg v) + unat (PAGE_SIZE mm * (hpage_nr_pages pg - 1))
      < 2 ^ LENGTH(64)"
    by (simp add: span_last_def m)
  then have "unat (vma_address mm pg v + PAGE_SIZE mm * (hpage_nr_pages pg - 1)) =
      unat (vma_address mm pg v) + unat (PAGE_SIZE mm * (hpage_nr_pages pg - 1))"
    by (simp add: unat_add_lem [THEN iffD1])
  with m show ?thesis by (simp add: span_last_def)
qed

text \<open>
  C8 as stated does not hold where the span runs over the top of the address space.
  In \<open>top_vma\<close> the page is expected at the start of the area, so its span of 512 pages
  covers the area; the end that line 344 computes in \<open>unsigned long\<close> wraps around to
  \<open>0x1FC000\<close>, below the start of the area, and \<open>page_mapped_in_vma\<close> answers 0
  without running the walker (with no fuel as with fuel).
\<close>

theorem span_wraps_counterexample:
  "hpage_nr_pages thp_page = 512 \<and>
   vma_address edge_mm thp_page top_vma = vm_start top_vma \<and>
   \<not> span_outside_region edge_mm thp_page top_vma \<and>
   page_mapped_in_vma edge_mm 0 thp_page top_vma =
     Returns (0, pvmw_init thp_page top_vma {PVMW_SYNC}) \<and>
   page_mapped_in_vma edge_mm 6 thp_page top_vma =
     Returns (0, pvmw_init thp_page top_vma {PVMW_SYNC})"
  by (simp add: page_mapped_in_vma_def span_outside_region_def span_last_def top_vma_def
      edge_mm_def demo_mm_def thp_page_def Let_def)

text \<open>
  C8, amended. \<open>page_mapped_in_vma\<close> computes the span of the page (of at least one
  frame) in the area. If the span falls entirely outside the area, it answers 0 without
  running the walker (no fuel is needed). Otherwise, provided the span does not run
  over the top of the address space, it runs the walker once, on a cursor with null
  handles whose flags are \<open>Sync\<close> alone and whose address is the page's expected
  address, raised to the start of the area.
\<close>

theorem page_mapped_in_vma_span_check:
  assumes "hpage_nr_pages pg \<noteq> 0"
  shows "(span_outside_region mm pg v \<longrightarrow>
            page_mapped_in_vma mm fuel pg v =
              Returns (0, \<lparr>page = pg, vma = v, address = 0, flags = {PVMW_SYNC}, pud = None,
                           pmd = None, pte = None, ptl = None, held = [], pte_mapped = False\<rparr>)) \<and>
         (\<not> span_outside_region mm pg v \<and> span_last mm pg v < 2 ^ 64 \<longrightarrow>
            page_mapped_in_vma mm fuel pg v =
              (case page_vma_mapped_walk mm fuel
                      \<lparr>page = pg, vma = v, address = max (vma_address mm pg v) (vm_start v),
                       flags = {PVMW_SYNC}, pud = None, pmd = None, pte = None, ptl = None,
                       held = [], pte_mapped = False\<rparr> of
                 Returns (False, s1) \<Rightarrow> Returns (0, s1)
               | Returns (True, s1) \<Rightarrow> Returns (1, page_vma_mapped_walk_done s1)
               | Crashed \<Rightarrow> Crashed
               | OutOfFuel \<Rightarrow> OutOfFuel))"
proof (intro conjI impI)
  assume out: "span_outside_region mm pg v"
  have "vma_address mm pg v + PAGE_SIZE mm * (hpage_nr_pages pg - 1) < vm_start v \<or>
        vm_end v \<le> vma_address mm pg v"
  proof (cases "unat (vm_end v) \<le> unat (vma_address mm pg v)")
    case True
    then show ?thesis by (simp add: word_le_nat_alt)
  next
    case False
    with out have lt: "span_last mm pg v < unat (vm_start v)"
      by (simp add: span_outside_region_def)
    have "unat (vm_start v) < 2 ^ 64" using unsigned_less [of "vm_start v", where 'a = nat] by simp
    with lt have "span_last mm pg v < 2 ^ 64" by simp
    with assms have "unat (vma_address mm pg v + PAGE_SIZE mm * (hpage_nr_pages pg - 1)) =
        span_last mm pg v" by (rule span_end_unat)
    with lt show ?thesis by (simp add: word_less_nat_alt)
  qed
  then show "page_mapped_in_vma mm fuel pg v =
              Returns (0, \<lparr>page = pg, vma = v, address = 0, flags = {PVMW_SYNC}, pud = None,
                           pmd = None, pte = None, ptl = None, held = [], pte_mapped = False\<rparr>)"
    by (auto simp: page_mapped_in_vma_def pvmw_init_def Let_def)
next
  assume "\<not> span_outside_region mm pg v \<and> span_last mm pg v < 2 ^ 64"
  then have ins: "\<not> span_outside_region mm pg v" and nw: "span_last mm pg v < 2 ^ 64" by simp_all
  from assms nw have "unat (vma_address mm pg v + PAGE_SIZE mm * (hpage_nr_pages pg - 1)) =
      span_last mm pg v" by (rule span_end_unat)
  with ins have "\<not> (vma_address mm pg v + PAGE_SIZE mm * (hpage_nr_pages pg - 1) < vm_start v \<or>
        vm_end v \<le> vma_address mm pg v)"
    by (simp add: span_outside_region_def word_less_nat_alt word_le_nat_alt)
  then show "page_mapped_in_vma mm fuel pg v =
              (case page_vma_mapped_walk mm fuel
                      \<lparr>page = pg, vma = v, address = max (vma_address mm pg v) (vm_start v),
                       flags = {PVMW_SYNC}, pud = None, pmd = None, pte = None, ptl = None,
                       held = [], pte_mapped = False\<rparr> of
                 Returns (False, s1) \<Rightarrow> Returns (0, s1)
               | Returns (True, s1) \<Rightarrow> Returns (1, page_vma_mapped_walk_done s1)
               | Crashed \<Rightarrow> Crashed
               | OutOfFuel \<Rightarrow> OutOfFuel)"
    by (simp add: page_mapped_in_vma_def pvmw_init_def Let_def)
qed

text \<open>
  The page is expected at \<open>0x50000000\<close>: an area below that address is answered without
  a walk, an area around it is walked from \<open>0x50000000\<close> under the flag \<open>Sync\<close>.
\<close>

theorem page_mapped_in_vma_span_check_witness:
  "hpage_nr_pages thp_page \<noteq> 0 \<and>
   span_outside_region far_mm thp_page \<lparr>vm_start = 0x10000000, vm_end = 0x10002000\<rparr> \<and>
   page_mapped_in_vma far_mm 0 thp_page \<lparr>vm_start = 0x10000000, vm_end = 0x10002000\<rparr> =
     Returns (0, \<lparr>page = thp_page, vma = \<lparr>vm_start = 0x10000000, vm_end = 0x10002000\<rparr>,
                  address = 0, flags = {PVMW_SYNC}, pud = None, pmd = None, pte = None,
                  ptl = None, held = [], pte_mapped = False\<rparr>) \<and>
   \<not> span_outside_region far_mm thp_page \<lparr>vm_start = 0x4FFFF000, vm_end = 0x50001000\<rparr> \<and>
   span_last far_mm thp_page \<lparr>vm_start = 0x4FFFF000, vm_end = 0x50001000\<rparr> < 2 ^ 64 \<and>
   page_mapped_in_vma far_mm 2 thp_page \<lparr>vm_start = 0x4FFFF000, vm_end = 0x50001000\<rparr> =
     Returns (0, \<lparr>page = thp_page, vma = \<lparr>vm_start = 0x4FFFF000, vm_end = 0x50001000\<rparr>,
                  address = 0x50000000, flags = {PVMW_SYNC}, pud = Some 1, pmd = None,
                  pte = None, ptl = None, held = [], pte_mapped = False\<rparr>)"
proof -
  let ?v1 = "\<lparr>vm_start = 0x10000000, vm_end = 0x10002000\<rparr> :: vm_area_struct"
  let ?v2 = "\<lparr>vm_start = 0x4FFFF000, vm_end = 0x50001000\<rparr> :: vm_area_struct"
  have a: "hpage_nr_pages thp_page \<noteq> 0" by (simp add: thp_page_def)
  have b: "span_outside_region far_mm thp_page ?v1" "\<not> span_outside_region far_mm thp_page ?v2"
    "span_last far_mm thp_page ?v2 < 2 ^ 64"
    by (simp_all add: span_outside_region_def span_last_def far_mm_def edge_mm_def demo_mm_def
        thp_page_def)
  have run: "page_vma_mapped_walk far_mm 2
       \<lparr>page = thp_page, vma = ?v2, address = max (vma_address far_mm thp_page ?v2) (vm_start ?v2),
        flags = {PVMW_SYNC}, pud = None, pmd = None, pte = None, ptl = None, held = [],
        pte_mapped = False\<rparr> =
     Returns (False, \<lparr>page = thp_page, vma = ?v2, address = 0x50000000, flags = {PVMW_SYNC},
                      pud = Some 1, pmd = None, pte = None, ptl = None, held = [],
                      pte_mapped = False\<rparr>)"
    by (simp add: page_vma_mapped_walk_def walk_from_numeral blk_defs prim_defs far_mm_def
        edge_mm_def demo_mm_def thp_page_def Let_def)
  from page_mapped_in_vma_span_check [OF a, of far_mm ?v1 0]
    page_mapped_in_vma_span_check [OF a, of far_mm ?v2 2] a b run
  show ?thesis by simp
qed

subsection \<open>The address stays in the area\<close>

lemma prim_pos:
  "address (spin_lock l s) = address s" "vma (spin_lock l s) = vma s"
  "address (spin_unlock l s) = address s" "vma (spin_unlock l s) = vma s"
  "address (pte_unmap s) = address s" "vma (pte_unmap s) = vma s"
  "address (pud_lock mm p s) = address s" "vma (pud_lock mm p s) = vma s"
  "address (pmd_lock mm p s) = address s" "vma (pmd_lock mm p s) = vma s"
  "address (unlock_ptl_if_set s) = address s" "vma (unlock_ptl_if_set s) = vma s"
  by (simp_all add: prim_defs split: option.splits)

lemma unlock_ptl_pos: "unlock_ptl s = Some s' \<Longrightarrow> address s' = address s \<and> vma s' = vma s"
  by (auto simp: unlock_ptl_def spin_unlock_def split: option.splits)

lemma map_pmd_pos: "map_pmd mm s = Some (b, s') \<Longrightarrow> address s' = address s \<and> vma s' = vma s"
  by (auto simp: map_pmd_def Let_def prim_pos split: option.splits if_splits)

lemma map_pte_pos: "map_pte mm s = Some (b, s') \<Longrightarrow> address s' = address s \<and> vma s' = vma s"
  by (auto simp: map_pte_def Let_def prim_pos split: option.splits if_splits)

lemma check_pmd_pos: "check_pmd mm s = Some (r, s') \<Longrightarrow> address s' = address s \<and> vma s' = vma s"
  by (auto simp: check_pmd_def Let_def dest: unlock_ptl_pos split: option.splits if_splits)

lemma entry_region: "vma s = v \<Longrightarrow> in_region s \<Longrightarrow> ctl_region v (blk_entry mm s)"
  by (auto simp: blk_entry_def Let_def in_region_def prim_pos split: option.splits bool.splits)

lemma restart_region: "vma s = v \<Longrightarrow> in_region s \<Longrightarrow> ctl_region v (blk_restart mm s)"
  by (auto simp: blk_restart_def Let_def in_region_def prim_pos dest!: unlock_ptl_pos
      split: option.splits)

lemma map_pmd_region: "vma s = v \<Longrightarrow> in_region s \<Longrightarrow> ctl_region v (blk_map_pmd mm s)"
  by (auto simp: blk_map_pmd_def in_region_def dest!: map_pmd_pos split: option.splits bool.splits)

lemma check_pmd_region: "vma s = v \<Longrightarrow> in_region s \<Longrightarrow> ctl_region v (blk_check_pmd mm s)"
  by (auto simp: blk_check_pmd_def in_region_def dest!: check_pmd_pos split: option.splits)

lemma next_pmd_region: "vma s = v \<Longrightarrow> in_region s \<Longrightarrow> ctl_region v (blk_next_pmd mm s)"
  by (simp add: blk_next_pmd_def)

lemma pte_level_region: "vma s = v \<Longrightarrow> in_region s \<Longrightarrow> ctl_region v (blk_pte_level mm s)"
  by (auto simp: blk_pte_level_def in_region_def dest!: map_pte_pos split: option.splits bool.splits)

lemma check_pte_region: "vma s = v \<Longrightarrow> in_region s \<Longrightarrow> ctl_region v (blk_check_pte mm s)"
  by (simp add: blk_check_pte_def split: option.splits bool.splits)

lemma next_pte_region: "vma s = v \<Longrightarrow> in_region s \<Longrightarrow> ctl_region v (blk_next_pte mm s)"
  by (simp add: blk_next_pte_def)

lemma advance_in_region:
  fixes a d lo e :: addr
  assumes "lo \<le> a" and "a < e" and "unat e + unat d \<le> 2 ^ 64"
  shows "lo \<le> a + d"
proof -
  from assms(2) have "unat a < unat e" by (simp add: word_less_nat_alt)
  with assms(3) have "unat a + unat d < 2 ^ LENGTH(64)" by simp
  then have "unat (a + d) = unat a + unat d" by (simp only: unat_add_lem)
  then have "a \<le> a + d" by (simp add: word_le_nat_alt)
  with assms(1) show ?thesis by simp
qed

lemma pte_skip_region:
  assumes "vma s = v" and "in_region s" and "region_no_wrap mm v"
  shows "ctl_region v (blk_pte_skip mm s)"
proof -
  let ?s1 = "s\<lparr>address := address s + PAGE_SIZE mm\<rparr>"
  show ?thesis
  proof (cases "walk_exhausted mm ?s1")
    case True
    then show ?thesis by (simp add: pte_skip_exhausted)
  next
    case False
    then have hi: "address s + PAGE_SIZE mm < vm_end v"
      using assms(1) by (simp add: walk_exhausted_def not_le)
    from assms have "vm_start v \<le> address s + PAGE_SIZE mm"
      by (intro advance_in_region [of _ _ "vm_end v"]) (simp_all add: in_region_def region_no_wrap_def)
    with hi assms(1) have r: "in_region ?s1" "vma ?s1 = v" by (simp_all add: in_region_def)
    with False show ?thesis
      by (auto simp: blk_pte_skip_def Let_def in_region_def prim_pos split: option.splits)
  qed
qed

lemma pmd_skip_region:
  assumes "vma s = v" and "in_region s" and "region_no_wrap mm v"
  shows "ctl_region v (blk_pmd_skip mm s)"
proof -
  let ?s1 = "s\<lparr>address := address s + HPAGE_PMD_SIZE mm\<rparr>"
  show ?thesis
  proof (cases "walk_exhausted mm ?s1")
    case True
    then show ?thesis by (simp add: pmd_skip_exhausted)
  next
    case False
    then have hi: "address s + HPAGE_PMD_SIZE mm < vm_end v"
      using assms(1) by (simp add: walk_exhausted_def not_le)
    from assms have "vm_start v \<le> address s + HPAGE_PMD_SIZE mm"
      by (intro advance_in_region [of _ _ "vm_end v"]) (simp_all add: in_region_def region_no_wrap_def)
    with hi assms(1) have r: "in_region ?s1" "vma ?s1 = v" by (simp_all add: in_region_def)
    with False show ?thesis
      by (auto simp: blk_pmd_skip_def Let_def in_region_def prim_pos split: option.splits)
  qed
qed

lemma step_region:
  "vma s = v \<Longrightarrow> in_region s \<Longrightarrow> region_no_wrap mm v \<Longrightarrow> ctl_region v (step mm l s)"
  by (cases l) (simp_all add: entry_region restart_region map_pmd_region check_pmd_region
      next_pmd_region pmd_skip_region pte_level_region check_pte_region next_pte_region
      pte_skip_region)

lemma walk_from_region:
  "vma s = v \<Longrightarrow> in_region s \<Longrightarrow> region_no_wrap mm v \<Longrightarrow>
   walk_from mm n l s = Returns (True, s') \<Longrightarrow> vma s' = v \<and> in_region s'"
proof (induction n arbitrary: l s)
  case 0
  then show ?case by simp
next
  case (Suc n)
  from Suc.prems(1,2,3) have ok: "ctl_region v (step mm l s)" by (rule step_region)
  show ?case
  proof (cases "step mm l s")
    case (Goto l' s1)
    with ok Suc.prems(3,4) Suc.IH [of s1 l'] show ?thesis by simp
  next
    case (Return b s1)
    with ok Suc.prems(4) show ?thesis by auto
  next
    case Fault
    with Suc.prems(4) show ?thesis by simp
  qed
qed

text \<open>
  C9 as stated does not hold: a walk started at or above the start of the area may
  start at its end. The first call does not compare the address with \<open>vm_end\<close>; in
  \<open>at_end_mm\<close> it returns \<open>true\<close> at the address \<open>0x2000\<close>, the end of the area.
\<close>

theorem start_at_region_end_counterexample:
  "vm_start (vma (fresh_s normal_page 0x1000 0x2000 0x2000)) \<le> address (fresh_s normal_page 0x1000 0x2000 0x2000) \<and>
   page_vma_mapped_walk at_end_mm 6 (fresh_s normal_page 0x1000 0x2000 0x2000) =
     Returns (True, (fresh_s normal_page 0x1000 0x2000 0x2000)
        \<lparr>pud := Some 0, pmd := Some 0, pte := Some 2, ptl := Some 2, held := [2], pte_mapped := True\<rparr>) \<and>
   address ((fresh_s normal_page 0x1000 0x2000 0x2000)
        \<lparr>pud := Some 0, pmd := Some 0, pte := Some 2, ptl := Some 2, held := [2], pte_mapped := True\<rparr>) = 0x2000 \<and>
   vm_end (vma ((fresh_s normal_page 0x1000 0x2000 0x2000)
        \<lparr>pud := Some 0, pmd := Some 0, pte := Some 2, ptl := Some 2, held := [2], pte_mapped := True\<rparr>)) = 0x2000"
  by (simp add: page_vma_mapped_walk_def walk_from_numeral blk_defs prim_defs at_end_mm_def
      fresh_s_def pvmw_init_def demo_mm_def normal_page_def Let_def)

text \<open>
  C9, amended. For a walk started at an address inside the area, \<open>vm_start \<le> address <
  vm_end\<close>, on an area whose end is far enough below the top of the address space for a
  step not to wrap around: every call that returns \<open>true\<close> reports an address inside
  the area, and so leaves the cursor ready for the next call; and a turn of either skip
  loop that brings the address to the end of the area or beyond returns \<open>false\<close>.
\<close>

theorem walk_true_stays_in_region:
  assumes "in_region s" and "region_no_wrap mm (vma s)"
  shows "(\<forall>s'. page_vma_mapped_walk mm fuel s = Returns (True, s') \<longrightarrow>
            vma s' = vma s \<and> vm_start (vma s) \<le> address s' \<and> address s' < vm_end (vma s)) \<and>
         (vm_end (vma s) \<le> address s + PAGE_SIZE mm \<longrightarrow>
            blk_pte_skip mm s = Return False (not_found (s\<lparr>address := address s + PAGE_SIZE mm\<rparr>))) \<and>
         (vm_end (vma s) \<le> address s + HPAGE_PMD_SIZE mm \<longrightarrow>
            blk_pmd_skip mm s = Return False (not_found (s\<lparr>address := address s + HPAGE_PMD_SIZE mm\<rparr>)))"
proof (intro conjI allI impI)
  fix s'
  assume "page_vma_mapped_walk mm fuel s = Returns (True, s')"
  then have "walk_from mm fuel L_entry s = Returns (True, s')"
    by (simp add: page_vma_mapped_walk_def)
  with assms have r: "vma s' = vma s \<and> in_region s'"
    by (intro walk_from_region [of s "vma s" mm fuel L_entry s']) simp_all
  then show "vma s' = vma s" "vm_start (vma s) \<le> address s'" "address s' < vm_end (vma s)"
    by (auto simp: in_region_def)
next
  assume "vm_end (vma s) \<le> address s + PAGE_SIZE mm"
  then show "blk_pte_skip mm s = Return False (not_found (s\<lparr>address := address s + PAGE_SIZE mm\<rparr>))"
    by (intro pte_skip_exhausted) (simp add: walk_exhausted_def)
next
  assume "vm_end (vma s) \<le> address s + HPAGE_PMD_SIZE mm"
  then show "blk_pmd_skip mm s = Return False (not_found (s\<lparr>address := address s + HPAGE_PMD_SIZE mm\<rparr>))"
    by (intro pmd_skip_exhausted) (simp add: walk_exhausted_def)
qed

text \<open>
  The second level-2 entry of \<open>pud_thp_mm\<close> is reported inside the area; \<open>short_vma_s\<close>
  steps to the end of its area and the loop returns \<open>false\<close>.
\<close>

theorem walk_true_stays_in_region_witness:
  "in_region pud_thp_s1 \<and> region_no_wrap pud_thp_mm (vma pud_thp_s1) \<and>
   page_vma_mapped_walk pud_thp_mm 4 pud_thp_s1 =
     Returns (True, pud_thp_s1\<lparr>address := 0x40200000, pmd := Some 513\<rparr>) \<and>
   vm_start (vma pud_thp_s1) \<le> 0x40200000 \<and> 0x40200000 < vm_end (vma pud_thp_s1) \<and>
   in_region short_vma_s \<and> region_no_wrap edge_mm (vma short_vma_s) \<and>
   vm_end (vma short_vma_s) \<le> address short_vma_s + PAGE_SIZE edge_mm \<and>
   blk_pte_skip edge_mm short_vma_s =
     Return False (not_found (short_vma_s\<lparr>address := address short_vma_s + PAGE_SIZE edge_mm\<rparr>))"
proof -
  have a: "in_region pud_thp_s1" "region_no_wrap pud_thp_mm (vma pud_thp_s1)"
    "vm_start (vma pud_thp_s1) = 0x40000000" "vm_end (vma pud_thp_s1) = 0x80000000"
    by (simp_all add: in_region_def region_no_wrap_def pud_thp_s1_def fresh_s_def pvmw_init_def
        pud_thp_mm_def demo_mm_def)
  have run: "page_vma_mapped_walk pud_thp_mm 4 pud_thp_s1 =
     Returns (True, pud_thp_s1\<lparr>address := 0x40200000, pmd := Some 513\<rparr>)"
    by (simp add: page_vma_mapped_walk_def walk_from_numeral blk_defs prim_defs pud_thp_mm_def
        pud_thp_s1_def fresh_s_def pvmw_init_def demo_mm_def pud_thp_page_def Let_def)
  have b: "in_region short_vma_s" "region_no_wrap edge_mm (vma short_vma_s)"
    "vm_end (vma short_vma_s) \<le> address short_vma_s + PAGE_SIZE edge_mm"
    by (simp_all add: in_region_def region_no_wrap_def short_vma_s_def edge_mm_def demo_mm_def)
  from walk_true_stays_in_region [OF a(1,2), of 4] run
  have c: "vm_start (vma pud_thp_s1) \<le> address (pud_thp_s1\<lparr>address := 0x40200000, pmd := Some 513\<rparr>) \<and>
           address (pud_thp_s1\<lparr>address := 0x40200000, pmd := Some 513\<rparr>) < vm_end (vma pud_thp_s1)"
    by blast
  from walk_true_stays_in_region [OF b(1,2), of 0] b(3)
  have d: "blk_pte_skip edge_mm short_vma_s =
     Return False (not_found (short_vma_s\<lparr>address := address short_vma_s + PAGE_SIZE edge_mm\<rparr>))"
    by blast
  from a b run c d show ?thesis by simp
qed

subsection \<open>Level 2 under \<open>MigrationAware\<close>\<close>

lemma check_pmd_by_entry:
  assumes "pmd s = Some p" and "pmd_entry mm (ptl s \<noteq> None) p = v"
  shows "check_pmd mm s =
     (case v of
        PMD_none \<Rightarrow> Some (0, s)
      | PMD_trans_huge f \<Rightarrow>
          if PVMW_MIGRATION \<in> flags s then Some (0, s)
          else if pfn_is_match (page s) f then Some (1, s) else Some (0, s)
      | PMD_table f \<Rightarrow> (case unlock_ptl s of None \<Rightarrow> None | Some s1 \<Rightarrow> Some (2, s1))
      | PMD_swap e \<Rightarrow>
          if thp_migration_supported mm \<and> PVMW_MIGRATION \<in> flags s \<and> is_migration_entry e \<and>
             pfn_is_match (page s) (migration_entry_to_pfn e)
          then Some (1, s) else Some (0, s))"
  using assms by (cases v) (simp_all add: check_pmd_def Let_def)

text \<open>
  C10. With \<open>MigrationAware\<close> set, \<open>check_pmd\<close> answers 0 for every present huge
  level-2 entry, and the level-2 loop goes on to \<open>next_pmd\<close>. When the head of the
  level-2 loop returns \<open>true\<close> under that flag, the platform supports huge-page
  migration placeholders and the entry is a migration placeholder whose frame matches
  the target.
\<close>

theorem check_pmd_migration_only_placeholder:
  assumes "PVMW_MIGRATION \<in> flags s" and "pmd s = Some p"
  shows "(pmd_trans_huge (pmd_entry mm (ptl s \<noteq> None) p) \<longrightarrow>
            check_pmd mm s = Some (0, s) \<and> blk_check_pmd mm s = Goto L_next_pmd s) \<and>
         (\<forall>s'. blk_check_pmd mm s = Return True s' \<longrightarrow>
            s' = s \<and> check_pmd mm s = Some (1, s) \<and> thp_migration_supported mm \<and>
            (\<exists>f. pmd_entry mm (ptl s \<noteq> None) p = PMD_swap (Migration f) \<and>
                 pfn_is_match (page s) f))"
proof -
  define v where "v = pmd_entry mm (ptl s \<noteq> None) p"
  then have c: "check_pmd mm s =
     (case v of
        PMD_none \<Rightarrow> Some (0, s)
      | PMD_trans_huge f \<Rightarrow>
          if PVMW_MIGRATION \<in> flags s then Some (0, s)
          else if pfn_is_match (page s) f then Some (1, s) else Some (0, s)
      | PMD_table f \<Rightarrow> (case unlock_ptl s of None \<Rightarrow> None | Some s1 \<Rightarrow> Some (2, s1))
      | PMD_swap e \<Rightarrow>
          if thp_migration_supported mm \<and> PVMW_MIGRATION \<in> flags s \<and> is_migration_entry e \<and>
             pfn_is_match (page s) (migration_entry_to_pfn e)
          then Some (1, s) else Some (0, s))"
    using assms(2) by (intro check_pmd_by_entry) simp_all
  have "(pmd_trans_huge v \<longrightarrow>
            check_pmd mm s = Some (0, s) \<and> blk_check_pmd mm s = Goto L_next_pmd s) \<and>
         (\<forall>s'. blk_check_pmd mm s = Return True s' \<longrightarrow>
            s' = s \<and> check_pmd mm s = Some (1, s) \<and> thp_migration_supported mm \<and>
            (\<exists>f. v = PMD_swap (Migration f) \<and> pfn_is_match (page s) f))"
  proof (cases v)
    case PMD_none
    with c assms(1) show ?thesis by (simp add: blk_check_pmd_def)
  next
    case (PMD_trans_huge f)
    with c assms(1) show ?thesis by (simp add: blk_check_pmd_def)
  next
    case (PMD_table f)
    with c assms(1) show ?thesis by (simp add: blk_check_pmd_def split: option.splits)
  next
    case (PMD_swap e)
    with c assms(1) show ?thesis by (cases e) (simp_all add: blk_check_pmd_def)
  qed
  then show ?thesis by (simp only: v_def)
qed

text \<open>
  In \<open>mig_mm\<close> the huge entry 0 maps the target and is not reported; the placeholder in
  entry 1 is.
\<close>

theorem check_pmd_migration_only_placeholder_witness:
  "PVMW_MIGRATION \<in> flags (mig_s thp_page {PVMW_MIGRATION} (Some 0) None 1) \<and>
   pmd_trans_huge (pmd_entry mig_mm True 0) \<and>
   pfn_is_match thp_page (pmd_pfn (pmd_entry mig_mm True 0)) \<and>
   check_pmd mig_mm (mig_s thp_page {PVMW_MIGRATION} (Some 0) None 1) =
     Some (0, mig_s thp_page {PVMW_MIGRATION} (Some 0) None 1) \<and>
   pmd_entry mig_mm True 1 = PMD_swap (Migration 0x5000) \<and>
   blk_check_pmd mig_mm (mig_s thp_page {PVMW_MIGRATION} (Some 1) None 1) =
     Return True (mig_s thp_page {PVMW_MIGRATION} (Some 1) None 1) \<and>
   thp_migration_supported mig_mm"
proof -
  have a: "PVMW_MIGRATION \<in> flags (mig_s thp_page {PVMW_MIGRATION} pm None 1)"
    and b: "pmd (mig_s thp_page {PVMW_MIGRATION} (Some q) None 1) = Some q"
    and c: "ptl (mig_s thp_page {PVMW_MIGRATION} pm None 1) = Some 1" for pm q
    by (simp_all add: mig_s_def)
  have d: "pmd_trans_huge (pmd_entry mig_mm True 0)"
    "pfn_is_match thp_page (pmd_pfn (pmd_entry mig_mm True 0))"
    "pmd_entry mig_mm True 1 = PMD_swap (Migration 0x5000)"
    by (simp_all add: mig_mm_def demo_mm_def pfn_is_match_def thp_page_def)
  have run: "blk_check_pmd mig_mm (mig_s thp_page {PVMW_MIGRATION} (Some 1) None 1) =
     Return True (mig_s thp_page {PVMW_MIGRATION} (Some 1) None 1)"
    by (simp add: blk_check_pmd_def check_pmd_def mig_s_def mig_mm_def demo_mm_def
        pfn_is_match_def thp_page_def)
  from check_pmd_migration_only_placeholder
         [where s = "mig_s thp_page {PVMW_MIGRATION} (Some 0) None 1" and p = 0 and mm = mig_mm]
    check_pmd_migration_only_placeholder
         [where s = "mig_s thp_page {PVMW_MIGRATION} (Some 1) None 1" and p = 1 and mm = mig_mm]
    a b c d run
  show ?thesis by simp
qed

end
